theory Spec2Isabelle
  imports Complex_Main
begin

section \<open>Errors and results\<close>

text \<open>
  Every Python exception the modelled code can raise is a value. A computation that may
  raise returns \<open>error + 'a\<close>, with \<open>Inl\<close> for the exception.
\<close>

datatype error =
    NameError string
  | UnboundLocalError string
  | AttributeError string
  | KeyError string
  | IndexError
  | ValueError string
  | RuntimeError string
  | TypeError string
  | ZeroDivisionError
  | StopIteration

definition bind_err :: "error + 'a \<Rightarrow> ('a \<Rightarrow> error + 'b) \<Rightarrow> error + 'b" where
  "bind_err m f = (case m of Inl e \<Rightarrow> Inl e | Inr x \<Rightarrow> f x)"

section \<open>model/model.py: shift_tokens_right\<close>

text \<open>
  A 2-D integer tensor is its number of columns together with its rows; the number of rows
  is the length of the row list. The column count is kept apart because a tensor with
  no rows still has a width.
\<close>

datatype tensor2 = Tensor2 (ncols: nat) (rows: "int list list")

definition wf_tensor2 :: "tensor2 \<Rightarrow> bool" where
  "wf_tensor2 t = list_all (\<lambda>r. length r = ncols t) (rows t)"

text \<open>\<open>masked_fill_(shifted == -100, pad_token_id)\<close> on one entry.\<close>

definition fill_sentinel :: "int \<Rightarrow> int \<Rightarrow> int" where
  "fill_sentinel pad x = (if x = - 100 then pad else x)"

text \<open>
  The statements of \<open>shift_tokens_right\<close>, in the order of the source:
  \<^item> \<open>shifted = input_ids.new_zeros(input_ids.shape)\<close>;
  \<^item> \<open>shifted[:, 1:] = input_ids[:, :-1]\<close>: columns \<open>1..\<close> of a row receive the row without
    its last entry (both slices are empty when the tensor has no column);
  \<^item> \<open>shifted[:, 0] = decoder_start_token_id\<close>: indexing column 0 of a tensor without columns
    raises \<open>IndexError\<close>;
  \<^item> \<open>pad_token_id is None\<close> raises \<open>ValueError\<close>;
  \<^item> every entry equal to \<open>-100\<close> becomes \<open>pad_token_id\<close>.
\<close>

definition new_zeros :: "tensor2 \<Rightarrow> tensor2" where
  "new_zeros t = Tensor2 (ncols t) (map (\<lambda>r. replicate (ncols t) 0) (rows t))"

definition assign_tail :: "tensor2 \<Rightarrow> tensor2 \<Rightarrow> tensor2" where
  "assign_tail shifted input_ids =
     Tensor2 (ncols shifted) (map2 (\<lambda>z r. take 1 z @ butlast r) (rows shifted) (rows input_ids))"

definition assign_col0 :: "tensor2 \<Rightarrow> int \<Rightarrow> error + tensor2" where
  "assign_col0 shifted v =
     (if ncols shifted = 0 then Inl IndexError
      else Inr (Tensor2 (ncols shifted) (map (\<lambda>r. r[0 := v]) (rows shifted))))"

definition masked_fill :: "tensor2 \<Rightarrow> int \<Rightarrow> tensor2" where
  "masked_fill shifted pad = Tensor2 (ncols shifted) (map (map (fill_sentinel pad)) (rows shifted))"

definition shift_tokens_right :: "tensor2 \<Rightarrow> int option \<Rightarrow> int \<Rightarrow> error + tensor2" where
  "shift_tokens_right input_ids pad_token_id decoder_start_token_id =
     bind_err (assign_col0 (assign_tail (new_zeros input_ids) input_ids) decoder_start_token_id)
       (\<lambda>shifted. case pad_token_id of
            None \<Rightarrow> Inl (ValueError ''self.model.config.pad_token_id has to be defined.'')
          | Some pad \<Rightarrow> Inr (masked_fill shifted pad))"

text \<open>Applying the transform to its own output, as a caller would.\<close>

definition shift_twice :: "tensor2 \<Rightarrow> int option \<Rightarrow> int \<Rightarrow> error + tensor2" where
  "shift_twice input_ids pad start =
     bind_err (shift_tokens_right input_ids pad start) (\<lambda>t. shift_tokens_right t pad start)"

section \<open>model/model.py: TransformerModel.generate\<close>

subsection \<open>Name resolution\<close>

text \<open>
  A name that a Python function reads is a local when it is a parameter or is assigned
  somewhere in the function body; any other name is looked up in the globals of the
  defining module and then among the builtins, and the lookup raises \<open>NameError\<close> when
  both miss. The tables below list the parameters of \<open>generate\<close>, the names its body
  assigns, the names that the top level of \<open>model/model.py\<close> binds (imports, classes,
  functions, and the attributes every module has) and the builtins.
\<close>

datatype pyval = PyModule | PyClass | PyFunction | PyBuiltin | PyStr | PyTensor "nat list"

definition generate_params :: "string list" where
  "generate_params = [''self'', ''encoder_out'', ''attention_mask'', ''beam_size'',
     ''beam_alpha'', ''repetition_penalty'', ''device'']"

definition generate_assigned :: "string list" where
  "generate_assigned = [''batch_size'', ''src_seq_size'', ''encoder_out_dict'', ''every_batch'',
     ''hidden_states'', ''src_key_padding_mask'', ''scores_save'', ''top_k_scores'',
     ''complete_seqs'', ''complete_ind'', ''seqs'', ''step'', ''decoder_outputs'', ''scores'',
     ''next_ix'', ''ix_'', ''top_k_words'', ''prev_word_inds'', ''next_word_inds'', ''eos_ind'',
     ''complete_ind_add'', ''ix'', ''score_save_pos'', ''lp'', ''_'', ''ind'', ''ind_expand'',
     ''predicted'', ''i'']"

definition module_globals :: "(string \<times> pyval) list" where
  "module_globals = [
     (''__name__'', PyStr), (''__doc__'', PyStr), (''__package__'', PyStr),
     (''__loader__'', PyBuiltin), (''__spec__'', PyBuiltin), (''__file__'', PyStr),
     (''__cached__'', PyStr), (''__builtins__'', PyModule),
     (''math'', PyModule), (''defaultdict'', PyClass), (''torch'', PyModule), (''nn'', PyModule),
     (''Variable'', PyClass), (''autocast'', PyClass), (''F'', PyModule),
     (''PretrainedConfig'', PyClass), (''AutoModel'', PyClass), (''AutoTokenizer'', PyClass),
     (''return_model_name'', PyFunction), (''model_setting'', PyFunction),
     (''TransformerModel'', PyClass), (''ClassifierModel'', PyClass),
     (''_prepare_bart_decoder_inputs'', PyFunction), (''shift_tokens_right'', PyFunction),
     (''make_padding_mask'', PyFunction), (''invert_mask'', PyFunction),
     (''fill_with_neg_inf'', PyFunction), (''PositionalEmbedding'', PyClass)]"

definition builtin_names :: "string list" where
  "builtin_names = [
     ''abs'', ''aiter'', ''all'', ''anext'', ''any'', ''ascii'', ''bin'', ''bool'', ''breakpoint'',
     ''bytearray'', ''bytes'', ''callable'', ''chr'', ''classmethod'', ''compile'', ''complex'',
     ''copyright'', ''credits'', ''delattr'', ''dict'', ''dir'', ''divmod'', ''enumerate'',
     ''eval'', ''exec'', ''exit'', ''filter'', ''float'', ''format'', ''frozenset'', ''getattr'',
     ''globals'', ''hasattr'', ''hash'', ''help'', ''hex'', ''id'', ''input'', ''int'',
     ''isinstance'', ''issubclass'', ''iter'', ''len'', ''license'', ''list'', ''locals'', ''map'',
     ''max'', ''memoryview'', ''min'', ''next'', ''object'', ''oct'', ''open'', ''ord'', ''pow'',
     ''print'', ''property'', ''quit'', ''range'', ''repr'', ''reversed'', ''round'', ''set'',
     ''setattr'', ''slice'', ''sorted'', ''staticmethod'', ''str'', ''sum'', ''super'', ''tuple'',
     ''type'', ''vars'', ''zip'', ''__import__'', ''__build_class__'', ''__debug__'',
     ''True'', ''False'', ''None'', ''Ellipsis'', ''NotImplemented'',
     ''ArithmeticError'', ''AssertionError'', ''AttributeError'', ''BaseException'',
     ''BaseExceptionGroup'', ''BlockingIOError'', ''BrokenPipeError'', ''BufferError'',
     ''BytesWarning'', ''ChildProcessError'', ''ConnectionAbortedError'', ''ConnectionError'',
     ''ConnectionRefusedError'', ''ConnectionResetError'', ''DeprecationWarning'', ''EOFError'',
     ''EncodingWarning'', ''EnvironmentError'', ''Exception'', ''ExceptionGroup'',
     ''FileExistsError'', ''FileNotFoundError'', ''FloatingPointError'', ''FutureWarning'',
     ''GeneratorExit'', ''IOError'', ''ImportError'', ''ImportWarning'', ''IndentationError'',
     ''IndexError'', ''InterruptedError'', ''IsADirectoryError'', ''KeyError'',
     ''KeyboardInterrupt'', ''LookupError'', ''MemoryError'', ''ModuleNotFoundError'',
     ''NameError'', ''NotADirectoryError'', ''NotImplementedError'', ''OSError'',
     ''OverflowError'', ''PendingDeprecationWarning'', ''PermissionError'',
     ''ProcessLookupError'', ''RecursionError'', ''ReferenceError'', ''ResourceWarning'',
     ''RuntimeError'', ''RuntimeWarning'', ''StopAsyncIteration'', ''StopIteration'',
     ''SyntaxError'', ''SyntaxWarning'', ''SystemError'', ''SystemExit'', ''TabError'',
     ''TimeoutError'', ''TypeError'', ''UnboundLocalError'', ''UnicodeDecodeError'',
     ''UnicodeEncodeError'', ''UnicodeError'', ''UnicodeTranslateError'', ''UnicodeWarning'',
     ''UserWarning'', ''ValueError'', ''Warning'', ''ZeroDivisionError'']"

definition is_local :: "string \<Rightarrow> bool" where
  "is_local name = (name \<in> set generate_params \<or> name \<in> set generate_assigned)"

definition load_global :: "string \<Rightarrow> error + pyval" where
  "load_global name =
     (case map_of module_globals name of
        Some v \<Rightarrow> Inr v
      | None \<Rightarrow> if name \<in> set builtin_names then Inr PyBuiltin else Inl (NameError name))"

text \<open>\<open>x.size(d)\<close>: only a tensor has the method.\<close>

definition py_size :: "pyval \<Rightarrow> nat \<Rightarrow> error + nat" where
  "py_size v d =
     (case v of
        PyTensor shape \<Rightarrow> if d < length shape then Inr (shape ! d) else Inl IndexError
      | _ \<Rightarrow> Inl (AttributeError ''size''))"

subsection \<open>Scores\<close>

text \<open>
  The log-softmax scores of one step are finite numbers. A cumulative score can also be
  \<open>float('-inf')\<close>, which step 0 writes into the end-of-sequence column.
\<close>

datatype score = MinusInf | Fin real

instantiation score :: linorder
begin

fun less_eq_score :: "score \<Rightarrow> score \<Rightarrow> bool" where
  "less_eq_score MinusInf y = True"
| "less_eq_score (Fin a) MinusInf = False"
| "less_eq_score (Fin a) (Fin b) = (a \<le> b)"

definition less_score :: "score \<Rightarrow> score \<Rightarrow> bool" where
  "less_score x y = (x \<le> y \<and> \<not> y \<le> x)"

instance
proof
  fix x y z :: score
  show "(x < y) = (x \<le> y \<and> \<not> y \<le> x)" by (simp add: less_score_def)
  show "x \<le> x" by (cases x) simp_all
  show "x \<le> y \<Longrightarrow> y \<le> z \<Longrightarrow> x \<le> z" by (cases x; cases y; cases z) simp_all
  show "x \<le> y \<Longrightarrow> y \<le> x \<Longrightarrow> x = y" by (cases x; cases y) simp_all
  show "x \<le> y \<or> y \<le> x" by (cases x; cases y) auto
qed

end

fun score_add :: "score \<Rightarrow> real \<Rightarrow> score" where
  "score_add MinusInf x = MinusInf"
| "score_add (Fin a) x = Fin (a + x)"

text \<open>Division by a positive number, the only kind the length penalty produces.\<close>

fun score_div :: "score \<Rightarrow> real \<Rightarrow> score" where
  "score_div MinusInf d = MinusInf"
| "score_div (Fin a) d = Fin (a / d)"

subsection \<open>The model object and the decoding state\<close>

text \<open>
  The fields of \<open>self\<close> that \<open>generate\<close> reads. The networks are not interpreted:
  \<^item> \<open>expand\<close> stands for lines 137 to 143, which reshape and repeat the attention mask and
    the encoder output for the \<open>beam_size\<close> copies of every example (it can fail when the
    shapes do not fit);
  \<^item> \<open>decoder\<close> stands for the decoder forward pass of lines 157 to 162;
  \<^item> \<open>score_head\<close> stands for lines 165 to 167: the last position of its argument through
    \<open>decoder_linear\<close>, GELU, \<open>decoder_norm\<close>, \<open>decoder_augmenter\<close> and \<open>log_softmax\<close>, one row
    of \<open>vocab_num\<close> scores per slot.
\<close>

record transformer_model =
  src_max_len :: nat
  vocab_num :: nat
  eos_idx :: nat
  decoder_start_token_id :: nat
  expand :: "nat \<Rightarrow> nat \<Rightarrow> nat \<Rightarrow> pyval \<Rightarrow> pyval \<Rightarrow> error + (pyval \<times> pyval)"
  decoder :: "nat list list \<Rightarrow> pyval \<Rightarrow> pyval \<Rightarrow> error + pyval"
  score_head :: "pyval \<Rightarrow> real list list"

text \<open>
  The variables that the decoding loop updates. \<open>top_k_scores\<close> and \<open>scores_save\<close> are
  column vectors with one entry per slot; \<open>complete_seqs\<close> is a \<open>defaultdict(list)\<close>;
  \<open>next_word_inds\<close> is empty before step 0, where the source has not bound it yet.
\<close>

record beam_state =
  seqs :: "nat list list"
  top_k_scores :: "score list"
  next_word_inds :: "nat list"
  scores_save :: "score list"
  complete_seqs :: "nat \<Rightarrow> nat list option"
  complete_ind :: "nat set"

text \<open>Reading a \<open>defaultdict(list)\<close>: a missing key gives the empty list.\<close>

definition seq_of :: "(nat \<Rightarrow> nat list option) \<Rightarrow> nat \<Rightarrow> nat list" where
  "seq_of m i = (case m i of None \<Rightarrow> [] | Some s \<Rightarrow> s)"

subsection \<open>Repetition penalty (lines 169 to 176)\<close>

text \<open>
  The loop over the slots multiplies a negative score of the previously chosen token by the
  penalty and divides any other by it. The model also records which of the two
  assignments it executed, and where.
\<close>

datatype penalty_op = Multiplied nat nat | Divided nat nat

definition penalise :: "real \<Rightarrow> real list list \<times> penalty_op list \<Rightarrow> nat \<times> nat
    \<Rightarrow> error + (real list list \<times> penalty_op list)" where
  "penalise repetition_penalty acc p =
     (case acc of (scores, ops) \<Rightarrow> case p of (i, j) \<Rightarrow>
        if i < length scores \<and> j < length (scores ! i) then
          (if scores ! i ! j < 0
           then Inr (scores[i := (scores ! i)[j := scores ! i ! j * repetition_penalty]],
                     ops @ [Multiplied i j])
           else Inr (scores[i := (scores ! i)[j := scores ! i ! j / repetition_penalty]],
                     ops @ [Divided i j]))
        else Inl IndexError)"

fun penalty_loop :: "real \<Rightarrow> (nat \<times> nat) list \<Rightarrow> real list list \<times> penalty_op list
    \<Rightarrow> error + (real list list \<times> penalty_op list)" where
  "penalty_loop repetition_penalty [] acc = Inr acc"
| "penalty_loop repetition_penalty (p # ps) acc =
     bind_err (penalise repetition_penalty acc p) (penalty_loop repetition_penalty ps)"

definition repetition_penalty_block :: "nat \<Rightarrow> real \<Rightarrow> nat list \<Rightarrow> real list list
    \<Rightarrow> error + (real list list \<times> penalty_op list)" where
  "repetition_penalty_block step repetition_penalty next_ix scores =
     (if step \<ge> 1 \<and> repetition_penalty \<noteq> 0
      then penalty_loop repetition_penalty (zip [0..<length next_ix] next_ix) (scores, [])
      else Inr (scores, []))"

subsection \<open>Candidate selection (lines 178 to 193)\<close>

text \<open>
  \<open>top_k_scores.expand_as(scores) + scores\<close>: the cumulative score of a slot is added to
  every score of its row. The head returns one row of \<open>vocab_num\<close> scores per slot; other
  shapes do not fit.
\<close>

definition add_cumulative :: "nat \<Rightarrow> score list \<Rightarrow> real list list \<Rightarrow> error + score list list" where
  "add_cumulative vocab cumulative scores =
     (if length scores = length cumulative \<and> list_all (\<lambda>row. length row = vocab) scores
      then Inr (map2 (\<lambda>c row. map (score_add c) row) cumulative scores)
      else Inl (RuntimeError ''shape''))"

text \<open>
  \<open>topk(beam_size, 1, True, True)\<close> on one row: the \<open>k\<close> largest scores with their column
  indices, largest first (among equal scores the lower index first); it fails when the
  row has fewer than \<open>k\<close> entries.
\<close>

definition topk :: "nat \<Rightarrow> score list \<Rightarrow> error + (score \<times> nat) list" where
  "topk k row =
     (if k \<le> length row
      then Inr (take k (rev (sort_key fst (rev (zip row [0..<length row])))))
      else Inl (RuntimeError ''topk''))"

fun sequence_err :: "(error + 'a) list \<Rightarrow> error + 'a list" where
  "sequence_err [] = Inr []"
| "sequence_err (m # ms) = bind_err m (\<lambda>x. bind_err (sequence_err ms) (\<lambda>xs. Inr (x # xs)))"

text \<open>
  The rows that \<open>topk\<close> sees. At step 0 they are every \<open>beam_size\<close>-th row with the
  end-of-sequence column set to \<open>-inf\<close>; afterwards \<open>view(batch_size, -1)\<close> joins the
  \<open>beam_size\<close> rows of an example into one.
\<close>

definition candidate_rows :: "transformer_model \<Rightarrow> nat \<Rightarrow> nat \<Rightarrow> nat \<Rightarrow> score list list
    \<Rightarrow> error + score list list" where
  "candidate_rows self step beam_size batch_size scores =
     (if step = 0 then
        (if beam_size = 0 then Inl (ValueError ''slice step cannot be zero'')
         else if eos_idx self < vocab_num self
         then Inr (map (\<lambda>b. (scores ! (b * beam_size))[eos_idx self := MinusInf])
                     [0..<(length scores + beam_size - 1) div beam_size])
         else Inl IndexError)
      else
        (if batch_size = 0 then Inl (RuntimeError ''view'')
         else Inr (map (\<lambda>b. concat (take beam_size (drop (b * beam_size) scores)))
                     [0..<batch_size])))"

text \<open>
  Lines 188 to 193: the flattened \<open>topk\<close> values become the cumulative scores, the index
  divided by \<open>vocab_num\<close> is the predecessor beam and the remainder the chosen token; slot
  \<open>b * beam_size + j\<close> continues the sequence of slot \<open>prev + b * beam_size\<close>.
  \<open>view(batch_size * beam_size, -1)\<close> cannot reshape an empty tensor.
\<close>

definition reorder :: "transformer_model \<Rightarrow> nat \<Rightarrow> nat \<Rightarrow> (score \<times> nat) list list
    \<Rightarrow> beam_state \<Rightarrow> error + beam_state" where
  "reorder self beam_size batch_size chosen st =
     (let flat = concat chosen;
          prev_word_inds = map (\<lambda>(s, w). w div vocab_num self) flat;
          next_inds = map (\<lambda>(s, w). w mod vocab_num self) flat;
          source = map2 (\<lambda>p b. p + b * beam_size) prev_word_inds
                     (concat (map (replicate beam_size) [0..<batch_size]))
      in if batch_size * beam_size = 0 \<or> flat = [] then Inl (RuntimeError ''view'')
         else if length flat \<noteq> batch_size * beam_size then Inl (RuntimeError ''shape'')
         else if list_all (\<lambda>i. i < length (seqs st)) source
         then Inr (st\<lparr>top_k_scores := map fst flat,
                      next_word_inds := next_inds,
                      seqs := map2 (\<lambda>i w. seqs st ! i @ [w]) source next_inds\<rparr>)
         else Inl IndexError)"

subsection \<open>Saving completed sequences (lines 195 to 205)\<close>

text \<open>
  \<open>eos_ind\<close> lists the slots whose new token is the end-of-sequence token;
  \<open>complete_ind_add\<close> keeps those that are not in \<open>complete_ind\<close> yet, and only they
  receive their score and their sequence.
\<close>

definition save_complete :: "nat \<Rightarrow> beam_state \<Rightarrow> beam_state" where
  "save_complete eos st =
     (if eos \<in> set (next_word_inds st) then
        (let eos_ind = filter (\<lambda>i. next_word_inds st ! i = eos) [0..<length (next_word_inds st)];
             complete_ind_add = filter (\<lambda>i. i \<notin> complete_ind st) eos_ind;
             st1 = st\<lparr>complete_ind := complete_ind st \<union> set eos_ind\<rparr>
         in if length complete_ind_add > 0
            then st1\<lparr>scores_save :=
                       foldl (\<lambda>ss i. ss[i := top_k_scores st ! i]) (scores_save st) complete_ind_add,
                     complete_seqs :=
                       foldl (\<lambda>m i. m(i \<mapsto> seqs st ! i)) (complete_seqs st) complete_ind_add\<rparr>
            else st1)
      else st)"

subsection \<open>One decoding step and the loop (lines 155 to 205)\<close>

text \<open>
  The step takes the loader of global names as a parameter. The score computation reads
  the name \<open>decoder_out\<close>, which is not a local of \<open>generate\<close>: the forward pass result is
  bound to \<open>decoder_outputs\<close>.
\<close>

definition beam_step :: "(string \<Rightarrow> error + pyval) \<Rightarrow> transformer_model \<Rightarrow> pyval \<Rightarrow> pyval
    \<Rightarrow> nat \<Rightarrow> real \<Rightarrow> nat \<Rightarrow> nat \<Rightarrow> beam_state \<Rightarrow> error + beam_state" where
  "beam_step load self hidden_states src_key_padding_mask beam_size repetition_penalty
       batch_size step st =
     bind_err (decoder self (seqs st) hidden_states src_key_padding_mask) (\<lambda>decoder_outputs.
     bind_err (load ''decoder_out'') (\<lambda>decoder_out.
     bind_err (repetition_penalty_block step repetition_penalty (next_word_inds st)
                 (score_head self decoder_out)) (\<lambda>(scores, ops).
     bind_err (add_cumulative (vocab_num self) (top_k_scores st) scores) (\<lambda>scores.
     bind_err (candidate_rows self step beam_size batch_size scores) (\<lambda>cands.
     bind_err (sequence_err (map (topk beam_size) cands)) (\<lambda>chosen.
     bind_err (reorder self beam_size batch_size chosen st) (\<lambda>st'.
     Inr (save_complete (eos_idx self) st'))))))))"

fun beam_loop :: "(nat \<Rightarrow> beam_state \<Rightarrow> error + beam_state) \<Rightarrow> nat list \<Rightarrow> beam_state
    \<Rightarrow> error + beam_state" where
  "beam_loop body [] st = Inr st"
| "beam_loop body (step # steps) st = bind_err (body step st) (beam_loop body steps)"

subsection \<open>Finalisation (lines 207 to 223)\<close>

text \<open>Every slot whose saved score is still 0 takes its last sequence and cumulative score.\<close>

definition finalize_unfinished :: "beam_state \<Rightarrow> beam_state" where
  "finalize_unfinished st =
     (let score_save_pos = filter (\<lambda>i. scores_save st ! i = Fin 0) [0..<length (scores_save st)]
      in st\<lparr>complete_seqs := foldl (\<lambda>m i. m(i \<mapsto> seqs st ! i)) (complete_seqs st) score_save_pos,
            scores_save := foldl (\<lambda>ss i. ss[i := top_k_scores st ! i]) (scores_save st) score_save_pos\<rparr>)"

text \<open>
  \<open>((lp + beam_size) ** beam_alpha) / ((beam_size + 1) ** beam_alpha)\<close>. Both bases are at
  least 1 as soon as there is a slot (\<open>beam_size \<ge> 1\<close>), where Python's power of a positive
  base is \<open>powr\<close>.
\<close>

definition length_penalty :: "nat \<Rightarrow> real \<Rightarrow> nat \<Rightarrow> real" where
  "length_penalty beam_size beam_alpha len =
     (real (len + beam_size) powr beam_alpha) / (real (beam_size + 1) powr beam_alpha)"

definition length_normalize :: "nat \<Rightarrow> real \<Rightarrow> nat \<Rightarrow> beam_state \<Rightarrow> score list" where
  "length_normalize beam_size beam_alpha batch_size st =
     map (\<lambda>i. score_div (scores_save st ! i)
                 (length_penalty beam_size beam_alpha (length (seq_of (complete_seqs st) i))))
       [0..<batch_size * beam_size]"

text \<open>\<open>max(1)\<close> returns the index of the first maximal value.\<close>

fun argmax_first :: "score list \<Rightarrow> nat" where
  "argmax_first [] = 0"
| "argmax_first [x] = 0"
| "argmax_first (x # y # ys) =
     (let j = argmax_first (y # ys) in if x < (y # ys) ! j then Suc j else 0)"

definition select_best :: "nat \<Rightarrow> nat \<Rightarrow> score list \<Rightarrow> error + nat list" where
  "select_best beam_size batch_size normalized =
     (if batch_size * beam_size = 0 then Inl (RuntimeError ''view'')
      else Inr (map (\<lambda>b. argmax_first (take beam_size (drop (b * beam_size) normalized))
                          + b * beam_size) [0..<batch_size]))"

definition predict :: "nat \<Rightarrow> real \<Rightarrow> nat \<Rightarrow> beam_state \<Rightarrow> error + nat list list" where
  "predict beam_size beam_alpha batch_size st =
     bind_err (select_best beam_size batch_size (length_normalize beam_size beam_alpha batch_size st))
       (\<lambda>ind_expand. Inr (map (seq_of (complete_seqs st)) ind_expand))"

subsection \<open>The whole function\<close>

text \<open>
  \<open>generate_in\<close> is the body of \<open>generate\<close> over a loader of global names; \<open>generate\<close> is the
  function as the module defines it. The first statement reads \<open>input_ids\<close>, which is
  neither a parameter nor assigned in the body.
\<close>

definition initial_state :: "transformer_model \<Rightarrow> nat \<Rightarrow> nat \<Rightarrow> beam_state" where
  "initial_state self beam_size batch_size =
     \<lparr>seqs = replicate (beam_size * batch_size) [decoder_start_token_id self],
      top_k_scores = replicate (beam_size * batch_size) (Fin 0),
      next_word_inds = [],
      scores_save = replicate (beam_size * batch_size) (Fin 0),
      complete_seqs = Map.empty,
      complete_ind = {}\<rparr>"

definition generate_in :: "(string \<Rightarrow> error + pyval) \<Rightarrow> transformer_model \<Rightarrow> pyval \<Rightarrow> pyval
    \<Rightarrow> nat \<Rightarrow> real \<Rightarrow> real \<Rightarrow> string \<Rightarrow> error + nat list list" where
  "generate_in load self encoder_out attention_mask beam_size beam_alpha repetition_penalty device =
     bind_err (load ''input_ids'') (\<lambda>input_ids.
     bind_err (py_size input_ids 0) (\<lambda>batch_size.
     bind_err (py_size input_ids 1) (\<lambda>src_seq_size.
     bind_err (if beam_size = 0 then Inl (RuntimeError ''arange'') else Inr ()) (\<lambda>every_batch.
     bind_err (expand self batch_size beam_size src_seq_size attention_mask encoder_out)
       (\<lambda>(src_key_padding_mask, hidden_states).
     bind_err (beam_loop (beam_step load self hidden_states src_key_padding_mask beam_size
                            repetition_penalty batch_size)
                 [0..<src_max_len self] (initial_state self beam_size batch_size)) (\<lambda>st.
     predict beam_size beam_alpha batch_size (finalize_unfinished st)))))))"

definition generate :: "transformer_model \<Rightarrow> pyval \<Rightarrow> pyval \<Rightarrow> nat \<Rightarrow> real \<Rightarrow> real \<Rightarrow> string
    \<Rightarrow> error + nat list list" where
  "generate self encoder_out attention_mask beam_size beam_alpha repetition_penalty device =
     generate_in load_global self encoder_out attention_mask beam_size beam_alpha
       repetition_penalty device"

subsection \<open>A small decoder for concrete runs\<close>

text \<open>
  A vocabulary of two tokens with end-of-sequence token 1 and start token 0, one example and
  one beam. The head scores token 0 with \<open>-1\<close> and token 1 with \<open>-1/2\<close> at every step.
  \<open>toy_loader\<close> is a name space in which \<open>input_ids\<close> and \<open>decoder_out\<close> are bound, as they
  would be if the module defined them; every other name resolves as in the module.
\<close>

definition toy_model :: transformer_model where
  "toy_model = \<lparr>src_max_len = 3, vocab_num = 2, eos_idx = 1, decoder_start_token_id = 0,
     expand = (\<lambda>batch_size beam_size src_seq_size mask enc. Inr (mask, enc)),
     decoder = (\<lambda>seqs hidden mask. Inr (PyTensor [])),
     score_head = (\<lambda>decoder_out. [[- 1, - 1 / 2]])\<rparr>"





section \<open>task/training.py: the training loop\<close>

subsection \<open>Data and collaborators\<close>

text \<open>
  A batch is what a data loader yields: token ids, attention mask, segment ids and one-hot
  labels, one row per example. A loader is modelled by the batches of one pass over it;
  the order in which a shuffling loader yields them is not fixed by the model.
\<close>

record batch =
  b_seq :: "int list list"
  b_att :: "int list list"
  b_seg :: "int list list"
  b_label :: "int list list"

text \<open>
  \<open>dataloader_dict['train']\<close> is a \<open>DataLoader\<close> until line 401 rebinds it; the trailing comma
  of that statement makes the new value a tuple that holds the loader. Iterating a tuple
  yields its element, the loader object itself.
\<close>

datatype train_loader = Loader "batch list" | LoaderTuple "batch list"

datatype item = Batch batch | LoaderObject

definition iter_train :: "train_loader \<Rightarrow> item list" where
  "iter_train dl = (case dl of Loader bs \<Rightarrow> map Batch bs | LoaderTuple bs \<Rightarrow> [LoaderObject])"

definition len_train :: "train_loader \<Rightarrow> nat" where
  "len_train dl = (case dl of Loader bs \<Rightarrow> length bs | LoaderTuple bs \<Rightarrow> 1)"

text \<open>
  The state dictionaries of the two models, the two optimizers, the two schedulers and the
  gradient scaler. Their contents are not interpreted.
\<close>

type_synonym state_dict = "(string \<times> real list) list"

record components =
  cls_model_sd :: state_dict
  aug_model_sd :: state_dict
  cls_optimizer_sd :: state_dict
  aug_optimizer_sd :: state_dict
  cls_scheduler_sd :: state_dict
  aug_scheduler_sd :: state_dict
  scaler_sd :: state_dict

text \<open>The dictionary that line 409 passes to \<open>torch.save\<close>, key by key.\<close>

record checkpoint =
  ck_epoch :: nat
  ck_cls_model :: state_dict
  ck_aug_model :: state_dict
  ck_cls_optimizer :: state_dict
  ck_aug_optimizer :: state_dict
  ck_cls_scheduler :: state_dict
  ck_aug_scheduler :: state_dict
  ck_scaler :: state_dict

definition snapshot :: "nat \<Rightarrow> components \<Rightarrow> checkpoint" where
  "snapshot epoch comps =
     \<lparr>ck_epoch = epoch,
      ck_cls_model = cls_model_sd comps,
      ck_aug_model = aug_model_sd comps,
      ck_cls_optimizer = cls_optimizer_sd comps,
      ck_aug_optimizer = aug_optimizer_sd comps,
      ck_cls_scheduler = cls_scheduler_sd comps,
      ck_aug_scheduler = aug_scheduler_sd comps,
      ck_scaler = scaler_sd comps\<rparr>"

text \<open>
  A forward pass runs with gradient tracking or inside \<open>torch.no_grad()\<close>; the mode is
  passed to the network explicitly.
\<close>

datatype grad_mode = Grad | NoGrad

record aug_output =
  enc_out :: "real list list list"
  dec_out :: "real list list list"
  latent :: "real list list"

text \<open>
  What the BERT tokenizer returns: a dictionary with exactly the keys \<open>input_ids\<close>,
  \<open>token_type_ids\<close> and \<open>attention_mask\<close>. Reading any other key raises \<open>KeyError\<close>.
\<close>

record encoding =
  enc_input_ids :: tensor2
  enc_token_type_ids :: tensor2
  enc_attention_mask :: tensor2

definition encoding_dict :: "encoding \<Rightarrow> (string \<times> tensor2) list" where
  "encoding_dict enc =
     [(''input_ids'', enc_input_ids enc),
      (''token_type_ids'', enc_token_type_ids enc),
      (''attention_mask'', enc_attention_mask enc)]"

definition getitem :: "encoding \<Rightarrow> string \<Rightarrow> error + tensor2" where
  "getitem enc key =
     (case map_of (encoding_dict enc) key of None \<Rightarrow> Inl (KeyError key) | Some v \<Rightarrow> Inr v)"

text \<open>
  The collaborators of the loop, none of which is in the sources that are modelled: the
  two networks, the loss functions of the library (\<open>cross_entropy\<close> takes the label
  smoothing, the ignored target index, the rows of logits and the target indices;
  \<open>cross_entropy_prob\<close> takes one-hot targets), the two call forms of
  \<open>MaximumMeanDiscrepancy\<close>, the tokenizers, and the effect on the components of one
  optimizer, scaler and scheduler step after the given losses were back-propagated.
\<close>

record collab =
  cls_model :: "components \<Rightarrow> grad_mode \<Rightarrow> int list list \<Rightarrow> int list list \<Rightarrow> int list list
                  \<Rightarrow> real list list"
  aug_model :: "components \<Rightarrow> grad_mode \<Rightarrow> int list list \<Rightarrow> int list list \<Rightarrow> int list list
                  \<Rightarrow> aug_output"
  cross_entropy :: "real \<Rightarrow> int \<Rightarrow> real list list \<Rightarrow> int list \<Rightarrow> real"
  cross_entropy_prob :: "real \<Rightarrow> real list list \<Rightarrow> int list list \<Rightarrow> real"
  mmd_prior :: "real list list \<Rightarrow> real"
  mmd_pair :: "real list list \<Rightarrow> real list list \<Rightarrow> real"
  batch_decode :: "nat list list \<Rightarrow> string list"
  tokenizer :: "string list \<Rightarrow> encoding"
  cls_optimizer_step :: "components \<Rightarrow> real list \<Rightarrow> components"
  aug_optimizer_step :: "components \<Rightarrow> real list \<Rightarrow> components"
  aug_pad_idx :: int

record train_args =
  num_grad_accumulate :: nat
  batch_size :: nat
  print_freq :: nat
  num_labels :: nat
  src_vocab_num :: nat
  label_smoothing_eps :: real

datatype log_msg =
    IterLog nat nat nat real real real real
  | ValCls real
  | ValAug real real
  | CheckpointSaving
  | StillBetter nat real
  | BestEpoch nat real

text \<open>
  The local variables of \<open>training\<close> that the loop reads or writes. A variable that may
  still be unbound is an option; reading it unbound raises \<open>UnboundLocalError\<close>.
  \<open>src_sequence\<close>, \<open>src_att\<close>, \<open>src_seg\<close> and \<open>trg_label\<close> are bound by the classifier
  phase and by the classifier validation, \<open>aug_batch_iter\<close> by the augmenter phase.
\<close>

record train_state =
  comps :: components
  cls_train_iter :: "item list"
  aug_train_iter :: "batch list"
  finish_epoch :: bool
  freq :: nat
  dl_train :: train_loader
  dl_valid :: "batch list"
  dl_aug_train :: "batch list"
  dl_aug_valid :: "batch list"
  src_sequence :: "int list list option"
  src_att :: "int list list option"
  src_seg :: "int list list option"
  trg_label :: "int list list option"
  aug_batch_iter :: "batch option"
  cls_loss_v :: "real option"
  ce_loss_v :: "real option"
  mmd_loss_v :: "real option"
  new_loss_v :: "real option"
  train_src_input_ids :: tensor2
  train_src_attention_mask :: tensor2
  train_src_token_type_ids :: tensor2
  train_trg_list :: tensor2
  best_val_loss :: real
  best_epoch :: "nat option"
  checkpoint_file :: "checkpoint option"
  logged :: "log_msg list"

definition read_var :: "string \<Rightarrow> 'a option \<Rightarrow> error + 'a" where
  "read_var name v = (case v of None \<Rightarrow> Inl (UnboundLocalError name) | Some x \<Rightarrow> Inr x)"

subsection \<open>Tensor helpers\<close>

definition chunks :: "nat \<Rightarrow> 'a list \<Rightarrow> 'a list list" where
  "chunks m xs = map (\<lambda>i. take m (drop (i * m) xs)) [0..<length xs div m]"

text \<open>\<open>view(-1, m)\<close> and \<open>view(n, -1)\<close> on the flat data of a contiguous tensor.\<close>

definition view_width :: "nat \<Rightarrow> 'a list \<Rightarrow> error + 'a list list" where
  "view_width m xs =
     (if m = 0 \<or> length xs mod m \<noteq> 0 then Inl (RuntimeError ''view'') else Inr (chunks m xs))"

definition view_rows :: "nat \<Rightarrow> 'a list \<Rightarrow> error + 'a list list" where
  "view_rows n xs =
     (if n = 0 \<or> length xs mod n \<noteq> 0 then Inl (RuntimeError ''view'')
      else Inr (chunks (length xs div n) xs))"

text \<open>\<open>argmax\<close> over the last dimension: the index of the first maximal entry.\<close>

fun argmax :: "real list \<Rightarrow> nat" where
  "argmax [] = 0"
| "argmax [x] = 0"
| "argmax (x # y # ys) = (let j = argmax (y # ys) in if x < (y # ys) ! j then Suc j else 0)"

definition softmax :: "real list \<Rightarrow> real list" where
  "softmax row = map (\<lambda>x. exp x / sum_list (map exp row)) row"

text \<open>\<open>np.concatenate\<close> of two 2-D arrays along the first axis.\<close>

definition np_concatenate :: "tensor2 \<Rightarrow> tensor2 \<Rightarrow> error + tensor2" where
  "np_concatenate x y =
     (if ncols x = ncols y then Inr (Tensor2 (ncols x) (rows x @ rows y))
      else Inl (ValueError ''all the input array dimensions except for the concatenation axis must match''))"

subsection \<open>Classifier phase (lines 204 to 229)\<close>

text \<open>
  \<open>next(cls_train_iter)\<close>; on \<open>StopIteration\<close> the iterator is created again and read
  once more. A \<open>StopIteration\<close> of the second read is not caught.
\<close>

definition cls_fetch :: "train_state \<Rightarrow> error + (item \<times> train_state)" where
  "cls_fetch st =
     (case cls_train_iter st of
        x # rest \<Rightarrow> Inr (x, st\<lparr>cls_train_iter := rest\<rparr>)
      | [] \<Rightarrow> (case iter_train (dl_train st) of
                 [] \<Rightarrow> Inl StopIteration
               | x # rest \<Rightarrow> Inr (x, st\<lparr>cls_train_iter := rest\<rparr>)))"

text \<open>
  What \<open>input_to_device\<close> and the unpacking do with a loader object instead of a batch is
  not in the sources; the model takes it to fail.
\<close>

definition cls_micro_batch :: "collab \<Rightarrow> train_args \<Rightarrow> train_state \<Rightarrow> error + (train_state \<times> real)" where
  "cls_micro_batch c a st =
     bind_err (cls_fetch st) (\<lambda>(x, st1).
       case x of
         LoaderObject \<Rightarrow> Inl (TypeError ''DataLoader'')
       | Batch b \<Rightarrow>
           (let logit = cls_model c (comps st1) Grad (b_seq b) (b_att b) (b_seg b);
                cls_loss = cross_entropy_prob c (label_smoothing_eps a) logit (b_label b)
                              / real (num_grad_accumulate a)
            in Inr (st1\<lparr>src_sequence := Some (b_seq b), src_att := Some (b_att b),
                         src_seg := Some (b_seg b), trg_label := Some (b_label b),
                         cls_loss_v := Some cls_loss\<rparr>, cls_loss)))"

text \<open>\<open>for _ in range(n)\<close> over a micro-batch that returns the loss it back-propagates.\<close>

fun accumulate :: "nat \<Rightarrow> (train_state \<Rightarrow> error + (train_state \<times> real)) \<Rightarrow> train_state \<Rightarrow> real list
    \<Rightarrow> error + (train_state \<times> real list)" where
  "accumulate 0 body st losses = Inr (st, losses)"
| "accumulate (Suc n) body st losses =
     bind_err (body st) (\<lambda>(st', l). accumulate n body st' (losses @ [l]))"

definition cls_phase :: "collab \<Rightarrow> train_args \<Rightarrow> train_state \<Rightarrow> error + train_state" where
  "cls_phase c a st =
     bind_err (accumulate (num_grad_accumulate a) (cls_micro_batch c a) st []) (\<lambda>(st', losses).
       Inr (st'\<lparr>comps := cls_optimizer_step c (comps st') losses\<rparr>))"

subsection \<open>Augmenter phase (lines 234 to 289)\<close>

text \<open>
  As for the classifier, but the handler of \<open>StopIteration\<close> also sets \<open>finish_epoch\<close>.
\<close>

definition aug_fetch :: "train_state \<Rightarrow> error + (batch \<times> train_state)" where
  "aug_fetch st =
     (case aug_train_iter st of
        b # rest \<Rightarrow> Inr (b, st\<lparr>aug_train_iter := rest, aug_batch_iter := Some b\<rparr>)
      | [] \<Rightarrow> (case dl_aug_train st of
                 [] \<Rightarrow> Inl StopIteration
               | b # rest \<Rightarrow> Inr (b, st\<lparr>aug_train_iter := rest, aug_batch_iter := Some b,
                                         finish_epoch := True\<rparr>)))"

text \<open>
  \<open>nn.CrossEntropyLoss\<close> and \<open>F.cross_entropy\<close> on class indices refuse an input whose
  number of rows differs from the number of targets.
\<close>

definition class_loss :: "collab \<Rightarrow> real \<Rightarrow> int \<Rightarrow> real list list \<Rightarrow> int list \<Rightarrow> error + real" where
  "class_loss c eps ignore_index logits target =
     (if length logits = length target then Inr (cross_entropy c eps ignore_index logits target)
      else Inl (ValueError ''Expected input batch_size to match target batch_size''))"

text \<open>
  Lines 271 to 281: the uniform target \<open>torch.full((n, num_labels), 1 / num_labels)\<close>, the
  confidence of the classifier and the mean of \<open>exp(ood_trg_list - confidence)\<close>. The
  model takes the subtraction to need equal shapes, as the two tensors have when the
  tokenizer and the classifier return one row per text. The mean of no entry at all is
  not a number, which the model reports as an error value.
\<close>

definition flatten_confidence_loss :: "nat \<Rightarrow> nat \<Rightarrow> real list list \<Rightarrow> error + real" where
  "flatten_confidence_loss n labels confidence =
     (if labels = 0 then Inl ZeroDivisionError
      else if length confidence = n \<and> list_all (\<lambda>row. length row = labels) confidence
      then (if n = 0 then Inl (RuntimeError ''nan'')
            else Inr (sum_list (concat (map (map (\<lambda>p. exp (1 / real labels - p))) confidence))
                        / real (n * labels)))
      else Inl (RuntimeError ''shape''))"

definition aug_micro_batch :: "collab \<Rightarrow> train_args \<Rightarrow> train_state \<Rightarrow> error + (train_state \<times> real)" where
  "aug_micro_batch c a st =
     bind_err (aug_fetch st) (\<lambda>(b, st1).
     let out = aug_model c (comps st1) Grad (b_seq b) (b_att b) (b_seg b) in
     bind_err (view_rows (batch_size a) (concat (latent out))) (\<lambda>z.
     let mmd_loss = mmd_prior c z * 10 in
     bind_err (view_width (src_vocab_num a) (concat (concat (dec_out out)))) (\<lambda>logits.
     bind_err (read_var ''src_sequence'' (src_sequence st1)) (\<lambda>src.
     bind_err (class_loss c (label_smoothing_eps a) (aug_pad_idx c) logits (concat src)) (\<lambda>ce_loss.
     let decoder_out_token = map (map argmax) (dec_out out);
         augmented_output = batch_decode c decoder_out_token;
         augmented_tokenized = tokenizer c augmented_output;
         logit = cls_model c (comps st1) NoGrad
                   (rows (enc_input_ids augmented_tokenized))
                   (rows (enc_attention_mask augmented_tokenized))
                   (rows (enc_token_type_ids augmented_tokenized));
         confidence = map softmax logit in
     bind_err (flatten_confidence_loss (length augmented_output) (num_labels a) confidence)
       (\<lambda>new_loss.
     let total_loss = mmd_loss + ce_loss + new_loss in
     Inr (st1\<lparr>ce_loss_v := Some ce_loss, mmd_loss_v := Some mmd_loss,
               new_loss_v := Some new_loss\<rparr>, total_loss)))))))"

definition aug_phase :: "collab \<Rightarrow> train_args \<Rightarrow> train_state \<Rightarrow> error + train_state" where
  "aug_phase c a st =
     bind_err (accumulate (num_grad_accumulate a) (aug_micro_batch c a) st []) (\<lambda>(st', losses).
       Inr (st'\<lparr>comps := aug_optimizer_step c (comps st') losses\<rparr>))"

subsection \<open>One round and the inner loop (lines 199 to 303)\<close>

text \<open>
  Lines 292 to 300. \<open>freq % args.print_freq\<close> divides by zero when the frequency is 0, and
  the message reads the losses of the last micro-batches.
\<close>

definition log_round :: "train_args \<Rightarrow> nat \<Rightarrow> train_state \<Rightarrow> error + train_state" where
  "log_round a epoch st =
     (if print_freq a = 0 then Inl ZeroDivisionError
      else if freq st mod print_freq a = 0 \<or> finish_epoch st then
        bind_err (read_var ''cls_loss_'' (cls_loss_v st)) (\<lambda>cls_loss.
        bind_err (read_var ''ce_loss'' (ce_loss_v st)) (\<lambda>ce_loss.
        bind_err (read_var ''mmd_loss'' (mmd_loss_v st)) (\<lambda>mmd_loss.
        bind_err (read_var ''new_loss'' (new_loss_v st)) (\<lambda>new_loss.
        Inr (st\<lparr>logged := logged st @
               [IterLog epoch (if freq st = 0 then freq st + 1 else freq st)
                  (len_train (dl_train st)) cls_loss ce_loss mmd_loss new_loss],
                 freq := freq st + 1\<rparr>)))))
      else Inr (st\<lparr>freq := freq st + 1\<rparr>))"

definition train_round :: "collab \<Rightarrow> train_args \<Rightarrow> nat \<Rightarrow> train_state \<Rightarrow> error + train_state" where
  "train_round c a epoch st =
     bind_err (cls_phase c a st) (\<lambda>st1.
     bind_err (aug_phase c a st1) (\<lambda>st2.
     log_round a epoch st2))"

text \<open>
  \<open>while True: ... if finish_epoch: break\<close>. The loop need not end (with no micro-batch per
  round and a silent log it never sets the flag), so its result is an option.
\<close>

partial_function (option) inner_loop ::
    "collab \<Rightarrow> train_args \<Rightarrow> nat \<Rightarrow> train_state \<Rightarrow> (error + train_state) option" where
  "inner_loop c a epoch st =
     (case train_round c a epoch st of
        Inl e \<Rightarrow> Some (Inl e)
      | Inr st' \<Rightarrow> if finish_epoch st' then Some (Inr st') else inner_loop c a epoch st')"

subsection \<open>Validation (lines 305 to 368)\<close>

definition cls_valid_batch :: "collab \<Rightarrow> train_args \<Rightarrow> train_state \<times> real \<Rightarrow> batch \<Rightarrow> train_state \<times> real" where
  "cls_valid_batch c a acc b =
     (case acc of (st, val_cls_loss) \<Rightarrow>
        let logit = cls_model c (comps st) NoGrad (b_seq b) (b_att b) (b_seg b);
            cls_loss = cross_entropy_prob c (label_smoothing_eps a) logit (b_label b)
        in (st\<lparr>src_sequence := Some (b_seq b), src_att := Some (b_att b),
                src_seg := Some (b_seg b), trg_label := Some (b_label b),
                cls_loss_v := Some cls_loss\<rparr>, val_cls_loss + cls_loss))"

definition cls_validation :: "collab \<Rightarrow> train_args \<Rightarrow> train_state \<Rightarrow> error + train_state" where
  "cls_validation c a st =
     (case foldl (cls_valid_batch c a) (st, 0) (dl_valid st) of (st', val_cls_loss) \<Rightarrow>
        if dl_valid st = [] then Inl ZeroDivisionError
        else Inr (st'\<lparr>logged := logged st' @ [ValCls (val_cls_loss / real (length (dl_valid st)))]\<rparr>))"

text \<open>
  The augmenter validation iterates over its loader but reads \<open>aug_batch_iter\<close> and
  \<open>src_sequence\<close>, \<open>src_att\<close>, \<open>src_seg\<close> as the earlier loops left them.
\<close>

definition aug_valid_batch :: "collab \<Rightarrow> train_args \<Rightarrow> train_state \<times> real \<times> real \<Rightarrow> batch
    \<Rightarrow> error + (train_state \<times> real \<times> real)" where
  "aug_valid_batch c a acc batch_iter =
     (case acc of (st, val_mmd_loss, val_ce_loss) \<Rightarrow>
     bind_err (read_var ''aug_batch_iter'' (aug_batch_iter st)) (\<lambda>aug_b_iter.
     bind_err (read_var ''src_sequence'' (src_sequence st)) (\<lambda>src.
     bind_err (read_var ''src_att'' (src_att st)) (\<lambda>att.
     bind_err (read_var ''src_seg'' (src_seg st)) (\<lambda>seg.
     let out = aug_model c (comps st) NoGrad src att seg in
     bind_err (view_rows (batch_size a) (concat (concat (enc_out out)))) (\<lambda>e.
     bind_err (view_rows (batch_size a) (concat (latent out))) (\<lambda>z.
     let mmd_loss = mmd_pair c e z * 10 in
     bind_err (view_width (src_vocab_num a) (concat (concat (dec_out out)))) (\<lambda>logits.
     bind_err (class_loss c 0 (- 100) logits (concat src)) (\<lambda>ce_loss.
     Inr (st\<lparr>mmd_loss_v := Some mmd_loss, ce_loss_v := Some ce_loss\<rparr>,
          val_mmd_loss + mmd_loss, val_ce_loss + ce_loss))))))))))"

fun fold_err :: "('s \<Rightarrow> 'b \<Rightarrow> error + 's) \<Rightarrow> 's \<Rightarrow> 'b list \<Rightarrow> error + 's" where
  "fold_err body s [] = Inr s"
| "fold_err body s (x # xs) = bind_err (body s x) (\<lambda>s'. fold_err body s' xs)"

definition aug_validation :: "collab \<Rightarrow> train_args \<Rightarrow> train_state \<Rightarrow> error + (train_state \<times> real)" where
  "aug_validation c a st =
     bind_err (fold_err (aug_valid_batch c a) (st, 0, 0) (dl_aug_valid st))
       (\<lambda>(st', val_mmd_loss, val_ce_loss).
          if dl_aug_valid st = [] then Inl ZeroDivisionError
          else Inr (st'\<lparr>logged := logged st' @
                        [ValAug (val_ce_loss / real (length (dl_aug_valid st)))
                                (val_mmd_loss / real (length (dl_aug_valid st)))]\<rparr>,
                    val_mmd_loss / real (length (dl_aug_valid st))))"

subsection \<open>Online augmentation (lines 373 to 403)\<close>

text \<open>
  The body of the loop over the augmenter's training loader. It does not read the loop
  variable: the label comes from \<open>aug_batch_iter\<close> and the text from \<open>src_sequence\<close>,
  \<open>src_att\<close>, \<open>src_seg\<close>. Line 394 reads the key \<open>attetntion_mask\<close>.
\<close>

definition augment_batch :: "collab \<Rightarrow> train_args \<Rightarrow> train_state \<Rightarrow> batch \<Rightarrow> error + train_state" where
  "augment_batch c a st batch_iter =
     bind_err (read_var ''aug_batch_iter'' (aug_batch_iter st)) (\<lambda>aug_b_iter.
     let st1 = st\<lparr>trg_label := Some (b_label aug_b_iter)\<rparr> in
     bind_err (read_var ''src_sequence'' (src_sequence st1)) (\<lambda>src.
     bind_err (read_var ''src_att'' (src_att st1)) (\<lambda>att.
     bind_err (read_var ''src_seg'' (src_seg st1)) (\<lambda>seg.
     let out = aug_model c (comps st1) NoGrad src att seg;
         decoder_out_token = map (map argmax) (dec_out out);
         augmented_output = batch_decode c decoder_out_token;
         augmented_tokenized = tokenizer c augmented_output in
     bind_err (getitem augmented_tokenized ''input_ids'') (\<lambda>ids.
     bind_err (np_concatenate (train_src_input_ids st1) ids) (\<lambda>new_ids.
     let st2 = st1\<lparr>train_src_input_ids := new_ids\<rparr> in
     bind_err (getitem augmented_tokenized ''attetntion_mask'') (\<lambda>mask.
     bind_err (np_concatenate (train_src_attention_mask st2) mask) (\<lambda>new_mask.
     let st3 = st2\<lparr>train_src_attention_mask := new_mask\<rparr> in
     bind_err (getitem augmented_tokenized ''token_type_ids'') (\<lambda>segs.
     bind_err (np_concatenate (train_src_token_type_ids st3) segs) (\<lambda>new_segs.
     let st4 = st3\<lparr>train_src_token_type_ids := new_segs\<rparr> in
     bind_err (np_concatenate (train_trg_list st4)
                 (Tensor2 (num_labels a) (b_label aug_b_iter))) (\<lambda>new_trg.
     Inr (st4\<lparr>train_trg_list := new_trg\<rparr>))))))))))))"

text \<open>
  Modelled from the spec: \<open>CustomDataset\<close> and \<open>DataLoader\<close> are not in the sources. The
  spec describes a source of fixed-size batches of (sequence, attention mask, segment ids,
  label) rows; without shuffling these are consecutive groups of \<open>batch_size\<close> rows.
\<close>

definition make_batches :: "nat \<Rightarrow> tensor2 \<Rightarrow> tensor2 \<Rightarrow> tensor2 \<Rightarrow> tensor2 \<Rightarrow> batch list" where
  "make_batches n ids atts segs trg =
     map (\<lambda>i. \<lparr>b_seq = take n (drop (i * n) (rows ids)),
               b_att = take n (drop (i * n) (rows atts)),
               b_seg = take n (drop (i * n) (rows segs)),
               b_label = take n (drop (i * n) (rows trg))\<rparr>)
       [0..<(length (rows ids) + n - 1) div n]"

definition augmentation_pass :: "collab \<Rightarrow> train_args \<Rightarrow> train_state \<Rightarrow> error + train_state" where
  "augmentation_pass c a st =
     bind_err (fold_err (augment_batch c a) st (dl_aug_train st)) (\<lambda>st'.
       Inr (st'\<lparr>dl_train := LoaderTuple (make_batches (batch_size a)
                    (train_src_input_ids st') (train_src_attention_mask st')
                    (train_src_token_type_ids st') (train_trg_list st'))\<rparr>))"

subsection \<open>Checkpoint (lines 405 to 423)\<close>

text \<open>
  \<open>best_val_loss\<close> starts at \<open>1e+3\<close> and \<open>best_epoch\<close> unbound (line 186); both are assigned
  when a checkpoint is written. The message of the other branch reads \<open>best_epoch\<close>.
\<close>

definition checkpoint_block :: "nat \<Rightarrow> real \<Rightarrow> train_state \<Rightarrow> error + train_state" where
  "checkpoint_block epoch val_mmd_loss st =
     (if val_mmd_loss < best_val_loss st then
        Inr (st\<lparr>logged := logged st @ [CheckpointSaving],
                checkpoint_file := Some (snapshot epoch (comps st)),
                best_val_loss := val_mmd_loss,
                best_epoch := Some epoch\<rparr>)
      else
        bind_err (read_var ''best_epoch'' (best_epoch st)) (\<lambda>e.
          Inr (st\<lparr>logged := logged st @ [StillBetter e (best_val_loss st)]\<rparr>)))"

subsection \<open>An epoch and the run (lines 190 to 427)\<close>

definition after_training :: "collab \<Rightarrow> train_args \<Rightarrow> nat \<Rightarrow> train_state \<Rightarrow> error + train_state" where
  "after_training c a epoch st =
     bind_err (cls_validation c a st) (\<lambda>st1.
     bind_err (aug_validation c a st1) (\<lambda>(st2, val_mmd_loss).
     bind_err (augmentation_pass c a st2) (\<lambda>st3.
     checkpoint_block epoch val_mmd_loss st3)))"

definition run_epoch :: "collab \<Rightarrow> train_args \<Rightarrow> nat \<Rightarrow> train_state \<Rightarrow> (error + train_state) option" where
  "run_epoch c a epoch st =
     (case inner_loop c a epoch (st\<lparr>finish_epoch := False, freq := 0\<rparr>) of
        None \<Rightarrow> None
      | Some (Inl e) \<Rightarrow> Some (Inl e)
      | Some (Inr st1) \<Rightarrow> Some (after_training c a epoch st1))"

fun run_epochs :: "collab \<Rightarrow> train_args \<Rightarrow> nat list \<Rightarrow> train_state \<Rightarrow> (error + train_state) option" where
  "run_epochs c a [] st =
     Some (bind_err (read_var ''best_epoch'' (best_epoch st)) (\<lambda>e.
             Inr (st\<lparr>logged := logged st @ [BestEpoch e (best_val_loss st)]\<rparr>)))"
| "run_epochs c a (epoch # epochs) st =
     (case run_epoch c a epoch st of
        None \<Rightarrow> None
      | Some (Inl e) \<Rightarrow> Some (Inl e)
      | Some (Inr st') \<Rightarrow> run_epochs c a epochs st')"

text \<open>The state at line 190 of a run that does not resume from a checkpoint.\<close>

definition initial_train_state :: "components \<Rightarrow> batch list \<Rightarrow> batch list \<Rightarrow> batch list \<Rightarrow> batch list
    \<Rightarrow> tensor2 \<Rightarrow> tensor2 \<Rightarrow> tensor2 \<Rightarrow> tensor2 \<Rightarrow> train_state" where
  "initial_train_state cs train valid aug_train aug_valid ids atts segs trg =
     \<lparr>comps = cs, cls_train_iter = map Batch train, aug_train_iter = aug_train,
      finish_epoch = False, freq = 0,
      dl_train = Loader train, dl_valid = valid, dl_aug_train = aug_train,
      dl_aug_valid = aug_valid,
      src_sequence = None, src_att = None, src_seg = None, trg_label = None,
      aug_batch_iter = None,
      cls_loss_v = None, ce_loss_v = None, mmd_loss_v = None, new_loss_v = None,
      train_src_input_ids = ids, train_src_attention_mask = atts,
      train_src_token_type_ids = segs, train_trg_list = trg,
      best_val_loss = 1000, best_epoch = None, checkpoint_file = None, logged = []\<rparr>"

subsection \<open>A small training set-up for concrete runs\<close>

text \<open>
  A vocabulary of three tokens with pad token 0 and two classes. The augmenter
  reproduces its input exactly: its logits are the one-hot rows of the input tokens. The
  reconstruction loss counts the targets, other than the ignored index, that the logits
  miss, so it is 0 on a perfect reconstruction. The classifier is undecided and the
  regularizer is 0. The optimizer steps leave the components alone.
\<close>

definition one_hot3 :: "int \<Rightarrow> real list" where
  "one_hot3 t = [if t = 0 then 1 else 0, if t = 1 then 1 else 0, if t = 2 then 1 else 0]"

definition count_missed :: "real \<Rightarrow> int \<Rightarrow> real list list \<Rightarrow> int list \<Rightarrow> real" where
  "count_missed eps ignore_index logits target =
     real (length (filter (\<lambda>(row, t). t \<noteq> ignore_index \<and> int (argmax row) \<noteq> t)
                     (zip logits target)))"

definition toy_collab :: collab where
  "toy_collab =
     \<lparr>cls_model = (\<lambda>cs mode seq att seg. map (\<lambda>r. [0, 0]) seq),
      aug_model = (\<lambda>cs mode seq att seg.
         \<lparr>enc_out = map (map (\<lambda>t. [real_of_int t])) seq,
          dec_out = map (map one_hot3) seq,
          latent = map (\<lambda>r. [0]) seq\<rparr>),
      cross_entropy = count_missed,
      cross_entropy_prob = (\<lambda>eps logits labels. 0),
      mmd_prior = (\<lambda>z. 0),
      mmd_pair = (\<lambda>e z. 0),
      batch_decode = (\<lambda>toks. map (\<lambda>r. ''text'') toks),
      tokenizer = (\<lambda>texts.
         \<lparr>enc_input_ids = Tensor2 2 (map (\<lambda>t. [1, 2]) texts),
          enc_token_type_ids = Tensor2 2 (map (\<lambda>t. [0, 0]) texts),
          enc_attention_mask = Tensor2 2 (map (\<lambda>t. [1, 1]) texts)\<rparr>),
      cls_optimizer_step = (\<lambda>cs losses. cs),
      aug_optimizer_step = (\<lambda>cs losses. cs),
      aug_pad_idx = 0\<rparr>"

definition toy_args :: train_args where
  "toy_args = \<lparr>num_grad_accumulate = 1, batch_size = 1, print_freq = 1, num_labels = 2,
     src_vocab_num = 3, label_smoothing_eps = 0\<rparr>"

definition toy_components :: components where
  "toy_components = \<lparr>cls_model_sd = [], aug_model_sd = [], cls_optimizer_sd = [],
     aug_optimizer_sd = [], cls_scheduler_sd = [], aug_scheduler_sd = [], scaler_sd = []\<rparr>"

text \<open>
  One classifier batch with the text \<open>[1, 1]\<close> and one augmenter batch with the text
  \<open>[2, 2]\<close>, of one example each.
\<close>

definition toy_cls_batch :: batch where
  "toy_cls_batch = \<lparr>b_seq = [[1, 1]], b_att = [[1, 1]], b_seg = [[0, 0]], b_label = [[1, 0]]\<rparr>"

definition toy_aug_batch :: batch where
  "toy_aug_batch = \<lparr>b_seq = [[2, 2]], b_att = [[1, 1]], b_seg = [[0, 0]], b_label = [[0, 1]]\<rparr>"

definition toy_train_state :: train_state where
  "toy_train_state =
     initial_train_state toy_components [toy_cls_batch] [toy_cls_batch] [toy_aug_batch]
       [toy_aug_batch] (Tensor2 2 [[1, 1]]) (Tensor2 2 [[1, 1]]) (Tensor2 2 [[0, 0]])
       (Tensor2 2 [[1, 0]])"

text \<open>The state of that run after the classifier phase of its first round.\<close>

definition toy_after_cls :: train_state where
  "toy_after_cls =
     toy_train_state\<lparr>cls_train_iter := [], src_sequence := Some [[1, 1]],
       src_att := Some [[1, 1]], src_seg := Some [[0, 0]], trg_label := Some [[1, 0]],
       cls_loss_v := Some 0\<rparr>"

text \<open>The state of that run after its first round.\<close>

definition toy_after_round :: train_state where
  "toy_after_round =
     toy_train_state\<lparr>cls_train_iter := [], aug_train_iter := [], freq := 1,
       src_sequence := Some [[1, 1]], src_att := Some [[1, 1]], src_seg := Some [[0, 0]],
       trg_label := Some [[1, 0]], aug_batch_iter := Some toy_aug_batch,
       cls_loss_v := Some 0, ce_loss_v := Some 2, mmd_loss_v := Some 0, new_loss_v := Some 1,
       logged := [IterLog 1 1 1 0 2 0 1]\<rparr>"

text \<open>The state of that run after its second round, which ends the inner loop.\<close>

definition toy_after_loop :: train_state where
  "toy_after_loop =
     toy_after_round\<lparr>finish_epoch := True, freq := 2,
       logged := [IterLog 1 1 1 0 2 0 1, IterLog 1 1 1 0 2 0 1]\<rparr>"

section \<open>Properties of shift_tokens_right\<close>

lemma fill_sentinel_idem: "fill_sentinel pad (fill_sentinel pad x) = fill_sentinel pad x"
  by (simp add: fill_sentinel_def)

lemma shifted_row:
  assumes "length r = w" "0 < w"
  shows "(take 1 (replicate w (0::int)) @ butlast r)[0 := s] = s # butlast r"
proof -
  from assms obtain k where "w = Suc k" by (cases w) auto
  then show ?thesis by simp
qed

lemma shift_tokens_right_rows:
  assumes "wf_tensor2 (Tensor2 w rs)" "0 < w"
  shows "shift_tokens_right (Tensor2 w rs) (Some pad) start =
           Inr (Tensor2 w (map (\<lambda>r. map (fill_sentinel pad) (start # butlast r)) rs))"
proof -
  have len: "\<And>r. r \<in> set rs \<Longrightarrow> length r = w"
    using assms(1) by (simp add: wf_tensor2_def list_all_iff)
  have "map (\<lambda>r. r[0 := start]) (map2 (\<lambda>z r. take 1 z @ butlast r) (map (\<lambda>r. replicate w 0) rs) rs)
          = map (\<lambda>r. start # butlast r) rs"
    using len assms(2) by (induction rs) (simp_all add: shifted_row)
  then show ?thesis
    using assms(2)
    by (simp add: shift_tokens_right_def bind_err_def assign_col0_def assign_tail_def
        new_zeros_def masked_fill_def)
qed

lemma shift_tokens_right_wf:
  assumes "wf_tensor2 (Tensor2 w rs)" "0 < w"
  shows "wf_tensor2 (Tensor2 w (map (\<lambda>r. map (fill_sentinel pad) (start # butlast r)) rs))"
  using assms by (auto simp: wf_tensor2_def list_all_iff)

lemma twice_row:
  "map (fill_sentinel pad) (start # butlast (map (fill_sentinel pad) (start # butlast r)))
     = map (fill_sentinel pad) (start # butlast (start # butlast r))"
proof -
  have "butlast (map (fill_sentinel pad) (start # butlast r))
          = map (fill_sentinel pad) (butlast (start # butlast r))"
    by (rule map_butlast [symmetric])
  then show ?thesis
    by (simp add: fill_sentinel_idem comp_def del: butlast.simps)
qed

lemma shift_twice_rows:
  assumes "wf_tensor2 (Tensor2 w rs)" "0 < w"
  shows "shift_twice (Tensor2 w rs) (Some pad) start =
           Inr (Tensor2 w (map (\<lambda>r. map (fill_sentinel pad)
                  (start # butlast (start # butlast r))) rs))"
proof -
  let ?once = "map (\<lambda>r. map (fill_sentinel pad) (start # butlast r)) rs"
  have "shift_twice (Tensor2 w rs) (Some pad) start = shift_tokens_right (Tensor2 w ?once) (Some pad) start"
    by (simp add: shift_twice_def shift_tokens_right_rows [OF assms] bind_err_def)
  also have "\<dots> = Inr (Tensor2 w (map (\<lambda>r. map (fill_sentinel pad) (start # butlast r)) ?once))"
    by (rule shift_tokens_right_rows [OF shift_tokens_right_wf [OF assms] assms(2)])
  also have "map (\<lambda>r. map (fill_sentinel pad) (start # butlast r)) ?once
               = map (\<lambda>r. map (fill_sentinel pad) (start # butlast (start # butlast r))) rs"
    by (simp only: map_map comp_def twice_row)
  finally show ?thesis .
qed

lemma shift_tokens_right_no_columns:
  "shift_tokens_right (Tensor2 0 rs) pad start = Inl IndexError"
  by (simp add: shift_tokens_right_def bind_err_def assign_col0_def assign_tail_def new_zeros_def)

lemma shift_tokens_right_no_pad:
  "0 < w \<Longrightarrow> shift_tokens_right (Tensor2 w rs) None start
     = Inl (ValueError ''self.model.config.pad_token_id has to be defined.'')"
  by (simp add: shift_tokens_right_def bind_err_def assign_col0_def assign_tail_def new_zeros_def)

lemma once_row_nth1:
  "2 \<le> length r \<Longrightarrow> map (fill_sentinel pad) (start # butlast r) ! 1 = fill_sentinel pad (hd r)"
  by (cases r rule: list.exhaust; cases "tl r") auto

lemma twice_row_nth1:
  "2 \<le> length r \<Longrightarrow>
     map (fill_sentinel pad) (start # butlast (start # butlast r)) ! 1 = fill_sentinel pad start"
  by (cases r rule: list.exhaust; cases "tl r") auto

lemma shift_twice_differs:
  assumes wf: "wf_tensor2 (Tensor2 w rs)" and w: "2 \<le> w" and r: "r \<in> set rs"
    and ne: "fill_sentinel pad (hd r) \<noteq> fill_sentinel pad start"
  shows "shift_twice (Tensor2 w rs) (Some pad) start \<noteq> shift_tokens_right (Tensor2 w rs) (Some pad) start"
proof
  assume eq: "shift_twice (Tensor2 w rs) (Some pad) start = shift_tokens_right (Tensor2 w rs) (Some pad) start"
  have pos: "0 < w" using w by simp
  have len: "2 \<le> length r"
    using wf w r by (simp add: wf_tensor2_def list_all_iff)
  from eq have "map (\<lambda>r. map (fill_sentinel pad) (start # butlast (start # butlast r))) rs
                  = map (\<lambda>r. map (fill_sentinel pad) (start # butlast r)) rs"
    by (simp only: shift_twice_rows [OF wf pos] shift_tokens_right_rows [OF wf pos]
        sum.inject tensor2.inject)
  then have "\<forall>x \<in> set rs. map (fill_sentinel pad) (start # butlast (start # butlast x))
                 = map (fill_sentinel pad) (start # butlast x)"
    by (rule map_eq_conv [THEN iffD1])
  with r have "map (fill_sentinel pad) (start # butlast (start # butlast r))
                 = map (fill_sentinel pad) (start # butlast r)"
    by blast
  then have "map (fill_sentinel pad) (start # butlast (start # butlast r)) ! 1
               = map (fill_sentinel pad) (start # butlast r) ! 1"
    by (rule arg_cong)
  then show False
    using ne by (simp only: once_row_nth1 [OF len] twice_row_nth1 [OF len])
qed

text \<open>
  Claim C5. On every token-id matrix that has a column 0 (and with the pad id defined),
  \<open>shift_tokens_right\<close> returns the matrix whose rows are the decoder-start token followed by
  the input row without its last entry, with every \<open>-100\<close> replaced by the pad id; so
  \<open>[a,b,c,d]\<close> with pad 0 and start 9 gives \<open>[9,a,b,c]\<close>, and no \<open>-100\<close> is left in the
  output. Applied twice it shifts a second time: the rows start with two start tokens, and
  the result differs from the single shift as soon as a row of at least two columns does
  not begin with the start token. The transform is therefore not idempotent.
\<close>

theorem shift_tokens_right_spec:
  "(wf_tensor2 (Tensor2 w rs) \<and> 0 < w \<longrightarrow>
      shift_tokens_right (Tensor2 w rs) (Some pad) start
        = Inr (Tensor2 w (map (\<lambda>r. map (fill_sentinel pad) (start # butlast r)) rs))
    \<and> (pad \<noteq> - 100 \<longrightarrow>
          (\<forall>out. shift_tokens_right (Tensor2 w rs) (Some pad) start = Inr out \<longrightarrow>
             (\<forall>row \<in> set (rows out). - 100 \<notin> set row)))
    \<and> shift_twice (Tensor2 w rs) (Some pad) start
        = Inr (Tensor2 w (map (\<lambda>r. map (fill_sentinel pad) (start # butlast (start # butlast r))) rs))
    \<and> (2 \<le> w \<and> (\<exists>r \<in> set rs. fill_sentinel pad (hd r) \<noteq> fill_sentinel pad start) \<longrightarrow>
          shift_twice (Tensor2 w rs) (Some pad) start
            \<noteq> shift_tokens_right (Tensor2 w rs) (Some pad) start))
   \<and> (a \<noteq> - 100 \<and> b \<noteq> - 100 \<and> c \<noteq> - 100 \<longrightarrow>
        shift_tokens_right (Tensor2 4 [[a, b, c, d]]) (Some 0) 9 = Inr (Tensor2 4 [[9, a, b, c]]))
   \<and> \<not> (\<forall>t. shift_twice t (Some 0) 9 = shift_tokens_right t (Some 0) 9)"
proof (intro conjI impI)
  assume h: "wf_tensor2 (Tensor2 w rs) \<and> 0 < w"
  then have wf: "wf_tensor2 (Tensor2 w rs)" and pos: "0 < w" by simp_all
  show once: "shift_tokens_right (Tensor2 w rs) (Some pad) start
        = Inr (Tensor2 w (map (\<lambda>r. map (fill_sentinel pad) (start # butlast r)) rs))"
    by (rule shift_tokens_right_rows [OF wf pos])
  show "shift_twice (Tensor2 w rs) (Some pad) start
        = Inr (Tensor2 w (map (\<lambda>r. map (fill_sentinel pad) (start # butlast (start # butlast r))) rs))"
    by (rule shift_twice_rows [OF wf pos])
  {
    assume pad: "pad \<noteq> - 100"
    show "\<forall>out. shift_tokens_right (Tensor2 w rs) (Some pad) start = Inr out \<longrightarrow>
             (\<forall>row \<in> set (rows out). - 100 \<notin> set row)"
      using pad by (auto simp: once fill_sentinel_def)
  }
  {
    assume d: "2 \<le> w \<and> (\<exists>r \<in> set rs. fill_sentinel pad (hd r) \<noteq> fill_sentinel pad start)"
    then obtain r where "r \<in> set rs" "fill_sentinel pad (hd r) \<noteq> fill_sentinel pad start"
      by blast
    with d show "shift_twice (Tensor2 w rs) (Some pad) start
            \<noteq> shift_tokens_right (Tensor2 w rs) (Some pad) start"
      using shift_twice_differs [OF wf] by blast
  }
next
  assume "a \<noteq> - 100 \<and> b \<noteq> - 100 \<and> c \<noteq> - 100"
  then show "shift_tokens_right (Tensor2 4 [[a, b, c, d]]) (Some 0) 9 = Inr (Tensor2 4 [[9, a, b, c]])"
    by (simp add: shift_tokens_right_def bind_err_def assign_col0_def assign_tail_def
        new_zeros_def masked_fill_def fill_sentinel_def)
next
  have "shift_twice (Tensor2 2 [[1, 2]]) (Some 0) 9 \<noteq> shift_tokens_right (Tensor2 2 [[1, 2]]) (Some 0) 9"
    by (simp add: shift_twice_def shift_tokens_right_def bind_err_def assign_col0_def
        assign_tail_def new_zeros_def masked_fill_def fill_sentinel_def)
  then show "\<not> (\<forall>t. shift_twice t (Some 0) 9 = shift_tokens_right t (Some 0) 9)"
    by blast
qed

theorem shift_tokens_right_spec_witness:
  "wf_tensor2 (Tensor2 4 [[1, 2, 3, 4], [5, - 100, 7, 8]]) \<and> (0::nat) < 4 \<and> (2::nat) \<le> 4
   \<and> (0::int) \<noteq> - 100 \<and> (1::int) \<noteq> - 100 \<and> (2::int) \<noteq> - 100 \<and> (3::int) \<noteq> - 100
   \<and> (\<exists>r \<in> set [[1, 2, 3, 4], [5, - 100, 7, 8]]. fill_sentinel 0 (hd r) \<noteq> fill_sentinel 0 9)
   \<and> shift_tokens_right (Tensor2 4 [[1, 2, 3, 4], [5, - 100, 7, 8]]) (Some 0) 9
        = Inr (Tensor2 4 [[9, 1, 2, 3], [9, 5, 0, 7]])
   \<and> shift_twice (Tensor2 4 [[1, 2, 3, 4], [5, - 100, 7, 8]]) (Some 0) 9
        = Inr (Tensor2 4 [[9, 9, 1, 2], [9, 9, 5, 0]])
   \<and> shift_twice (Tensor2 4 [[1, 2, 3, 4], [5, - 100, 7, 8]]) (Some 0) 9
        \<noteq> shift_tokens_right (Tensor2 4 [[1, 2, 3, 4], [5, - 100, 7, 8]]) (Some 0) 9
   \<and> shift_tokens_right (Tensor2 4 [[1, 2, 3, 4]]) (Some 0) 9 = Inr (Tensor2 4 [[9, 1, 2, 3]])"
  using shift_tokens_right_spec [of 4 "[[1, 2, 3, 4], [5, - 100, 7, 8]]" 0 9 1 2 3 4]
  by (simp add: wf_tensor2_def fill_sentinel_def)

section \<open>Properties of TransformerModel.generate\<close>

subsection \<open>Name resolution\<close>

lemma load_global_input_ids: "load_global ''input_ids'' = Inl (NameError ''input_ids'')"
  by (simp add: load_global_def module_globals_def builtin_names_def)

lemma load_global_decoder_out: "load_global ''decoder_out'' = Inl (NameError ''decoder_out'')"
  by (simp add: load_global_def module_globals_def builtin_names_def)

lemma generate_NameError:
  "generate self encoder_out attention_mask beam_size beam_alpha repetition_penalty device
     = Inl (NameError ''input_ids'')"
  by (simp add: generate_def generate_in_def load_global_input_ids bind_err_def)

lemma beam_step_NameError:
  "beam_step load_global self h m k rp B step st =
     (case decoder self (seqs st) h m of Inl e \<Rightarrow> Inl e | Inr d \<Rightarrow> Inl (NameError ''decoder_out''))"
  by (simp add: beam_step_def load_global_decoder_out bind_err_def split: sum.splits)

lemma names: "\<not> is_local ''input_ids'' \<and> \<not> is_local ''decoder_out'' \<and> is_local ''decoder_outputs''"
  by (simp add: is_local_def generate_params_def generate_assigned_def)

lemma penalty_zero: "repetition_penalty_block step 0 next_ix scores = Inr (scores, [])"
  by (simp add: repetition_penalty_block_def)

lemma reorder_forget:
  "reorder self k B chosen (st\<lparr>next_word_inds := xs\<rparr>) = reorder self k B chosen st"
  by (simp add: reorder_def Let_def)

lemma beam_step_penalty_zero:
  "beam_step load self h m k 0 B step (st\<lparr>next_word_inds := xs\<rparr>) = beam_step load self h m k 0 B step st"
  by (simp add: beam_step_def penalty_zero reorder_forget)


text \<open>
  Claim C10. Whatever the arguments, \<open>generate\<close> raises \<open>NameError\<close> at its first statement:
  \<open>input_ids\<close> is neither a parameter nor assigned in the body, and neither the module nor the
  builtins bind it. The same holds for \<open>decoder_out\<close> in the score computation (the
  forward pass result is bound to \<open>decoder_outputs\<close>): with the module's names, a decoding
  step whose forward pass succeeds raises \<open>NameError\<close> as well, so no step ever completes.
\<close>

theorem generate_always_raises_NameError:
  "generate self encoder_out attention_mask beam_size beam_alpha repetition_penalty device
     = Inl (NameError ''input_ids'')
   \<and> \<not> is_local ''input_ids'' \<and> load_global ''input_ids'' = Inl (NameError ''input_ids'')
   \<and> \<not> is_local ''decoder_out'' \<and> is_local ''decoder_outputs''
   \<and> load_global ''decoder_out'' = Inl (NameError ''decoder_out'')
   \<and> beam_step load_global self h m k rp B step st =
        (case decoder self (seqs st) h m of
           Inl e \<Rightarrow> Inl e
         | Inr d \<Rightarrow> Inl (NameError ''decoder_out''))"
  using generate_NameError load_global_input_ids load_global_decoder_out beam_step_NameError names
  by simp

text \<open>
  Claim C1 (the code departs from it). On a batch of three examples with beam size 2 the
  function returns no sequence at all: the call ends in \<open>NameError\<close>, as it does on every
  input.
\<close>

theorem generate_returns_no_sequence:
  "generate toy_model (PyTensor [5, 3, 8]) (PyTensor [3, 5]) 2 (7 / 10) (6 / 5) ''cuda''
     = Inl (NameError ''input_ids'')"
  by (rule generate_NameError)

subsection \<open>Repetition penalty\<close>

text \<open>
  Claim C8. With \<open>repetition_penalty = 0\<close> the penalty block returns the scores it was given
  and executes neither the multiplication nor the division, at every step and for every
  previous choice of tokens; a whole decoding step then does not depend on the
  previously chosen tokens. A division is only ever executed with a penalty different
  from 0.
\<close>

theorem repetition_penalty_zero_unmodified:
  "repetition_penalty_block step 0 next_ix scores = Inr (scores, [])
   \<and> beam_step load self h m k 0 B step (st\<lparr>next_word_inds := xs\<rparr>)
        = beam_step load self h m k 0 B step st
   \<and> (repetition_penalty_block step rp next_ix scores = Inr (scores', ops) \<and> ops \<noteq> []
        \<longrightarrow> rp \<noteq> 0)"
proof (intro conjI impI)
  show "repetition_penalty_block step 0 next_ix scores = Inr (scores, [])"
    by (rule penalty_zero)
  show "beam_step load self h m k 0 B step (st\<lparr>next_word_inds := xs\<rparr>)
        = beam_step load self h m k 0 B step st"
    by (rule beam_step_penalty_zero)
  assume a: "repetition_penalty_block step rp next_ix scores = Inr (scores', ops) \<and> ops \<noteq> []"
  show "rp \<noteq> 0"
  proof
    assume "rp = 0"
    with a show False by (auto simp: penalty_zero)
  qed
qed

theorem repetition_penalty_zero_unmodified_witness:
  "repetition_penalty_block 1 2 [0] [[1, - 1]] = Inr ([[1 / 2, - 1]], [Divided 0 0])
   \<and> [Divided 0 0] \<noteq> [] \<and> (2::real) \<noteq> 0
   \<and> repetition_penalty_block 1 0 [0] [[1, - 1]] = Inr ([[1, - 1]], [])"
  using repetition_penalty_zero_unmodified
    [where step = 1 and next_ix = "[0]" and scores = "[[1, - 1]]" and rp = 2
       and scores' = "[[1 / 2, - 1]]" and ops = "[Divided 0 0]"]
  by (simp add: repetition_penalty_block_def penalise_def bind_err_def)

subsection \<open>Completed sequences\<close>


lemma foldl_upd_length: "length (foldl (\<lambda>ss i. ss[i := f i]) ss is) = length ss"
  by (induction "is" arbitrary: ss) auto





lemma save_complete_mono: "complete_ind st \<subseteq> complete_ind (save_complete eos st)"
  by (auto simp: save_complete_def Let_def)








subsection \<open>Length normalisation and the choice of the winner\<close>


















section \<open>Properties of the training loop\<close>

subsection \<open>Exhausted data sources\<close>

lemma accumulate_keeps:
  assumes "\<And>s s' l. body s = Inr (s', l) \<Longrightarrow> f s' = f s"
  shows "accumulate n body st ls = Inr (st', ls') \<Longrightarrow> f st' = f st"
proof (induction n arbitrary: st ls)
  case 0
  then show ?case by simp
next
  case (Suc n)
  from Suc.prems obtain s1 l where b: "body st = Inr (s1, l)"
    and r: "accumulate n body s1 (ls @ [l]) = Inr (st', ls')"
    by (auto simp: bind_err_def split: sum.splits)
  from Suc.IH [OF r] assms [OF b] show ?case by simp
qed

lemma cls_fetch_keeps:
  assumes "cls_fetch st = Inr (x, st')"
  shows "finish_epoch st' = finish_epoch st" and "aug_train_iter st' = aug_train_iter st"
    and "dl_aug_train st' = dl_aug_train st" and "dl_train st' = dl_train st"
  using assms by (auto simp: cls_fetch_def split: list.splits)

lemma cls_fetch_recovers:
  assumes "cls_train_iter st = []" "dl_train st = Loader (b # bs)"
  shows "cls_fetch st = Inr (Batch b, st\<lparr>cls_train_iter := map Batch bs\<rparr>)"
  using assms by (simp add: cls_fetch_def iter_train_def)

lemma cls_micro_batch_keeps:
  assumes "cls_micro_batch c a st = Inr (st', l)"
  shows "finish_epoch st' = finish_epoch st" and "aug_train_iter st' = aug_train_iter st"
    and "dl_aug_train st' = dl_aug_train st"
proof -
  from assms obtain x st1 where f: "cls_fetch st = Inr (x, st1)"
    by (auto simp: cls_micro_batch_def bind_err_def split: sum.splits)
  with assms obtain b where x: "x = Batch b"
    by (cases x) (auto simp: cls_micro_batch_def bind_err_def)
  from assms f x have "finish_epoch st' = finish_epoch st1 \<and> aug_train_iter st' = aug_train_iter st1
      \<and> dl_aug_train st' = dl_aug_train st1"
    by (auto simp: cls_micro_batch_def bind_err_def Let_def)
  with cls_fetch_keeps [OF f]
  show "finish_epoch st' = finish_epoch st" and "aug_train_iter st' = aug_train_iter st"
    and "dl_aug_train st' = dl_aug_train st"
    by simp_all
qed

lemma cls_phase_keeps:
  assumes "cls_phase c a st = Inr st'"
  shows "finish_epoch st' = finish_epoch st" and "aug_train_iter st' = aug_train_iter st"
    and "dl_aug_train st' = dl_aug_train st"
proof -
  from assms obtain s1 ls where acc: "accumulate (num_grad_accumulate a) (cls_micro_batch c a) st [] = Inr (s1, ls)"
    and st': "st' = s1\<lparr>comps := cls_optimizer_step c (comps s1) ls\<rparr>"
    by (auto simp: cls_phase_def bind_err_def split: sum.splits)
  have "finish_epoch s1 = finish_epoch st"
    by (rule accumulate_keeps [OF _ acc]) (rule cls_micro_batch_keeps(1))
  moreover have "aug_train_iter s1 = aug_train_iter st"
    by (rule accumulate_keeps [OF _ acc]) (rule cls_micro_batch_keeps(2))
  moreover have "dl_aug_train s1 = dl_aug_train st"
    by (rule accumulate_keeps [OF _ acc]) (rule cls_micro_batch_keeps(3))
  ultimately show "finish_epoch st' = finish_epoch st" and "aug_train_iter st' = aug_train_iter st"
    and "dl_aug_train st' = dl_aug_train st"
    using st' by simp_all
qed

lemma aug_fetch_exhausted:
  assumes "aug_train_iter st = []" "dl_aug_train st = b # bs"
  shows "aug_fetch st = Inr (b, st\<lparr>aug_train_iter := bs, aug_batch_iter := Some b, finish_epoch := True\<rparr>)"
  using assms by (simp add: aug_fetch_def)

lemma aug_fetch_next:
  assumes "aug_train_iter st = b # bs"
  shows "aug_fetch st = Inr (b, st\<lparr>aug_train_iter := bs, aug_batch_iter := Some b\<rparr>)"
  using assms by (simp add: aug_fetch_def)

lemma aug_fetch_cases:
  assumes "aug_fetch st = Inr (b, st')"
  shows "dl_aug_train st' = dl_aug_train st"
    and "aug_train_iter st \<noteq> [] \<Longrightarrow> finish_epoch st' = finish_epoch st
           \<and> Suc (length (aug_train_iter st')) = length (aug_train_iter st)"
    and "aug_train_iter st = [] \<Longrightarrow> finish_epoch st' \<and> dl_aug_train st \<noteq> []"
  using assms by (auto simp: aug_fetch_def split: list.splits)

lemma aug_micro_batch_fetch:
  assumes "aug_micro_batch c a st = Inr (st', l)"
  shows "\<exists>b st1. aug_fetch st = Inr (b, st1) \<and> finish_epoch st' = finish_epoch st1
           \<and> aug_train_iter st' = aug_train_iter st1 \<and> dl_aug_train st' = dl_aug_train st1"
  using assms
  by (auto simp: aug_micro_batch_def bind_err_def Let_def split: sum.splits)

lemma aug_micro_batch_cases:
  assumes "aug_micro_batch c a st = Inr (st', l)"
  shows "dl_aug_train st' = dl_aug_train st"
    and "aug_train_iter st \<noteq> [] \<Longrightarrow> finish_epoch st' = finish_epoch st
           \<and> Suc (length (aug_train_iter st')) = length (aug_train_iter st)"
    and "aug_train_iter st = [] \<Longrightarrow> finish_epoch st' \<and> dl_aug_train st \<noteq> []"
proof -
  from aug_micro_batch_fetch [OF assms] obtain b st1 where f: "aug_fetch st = Inr (b, st1)"
    and e: "finish_epoch st' = finish_epoch st1" "aug_train_iter st' = aug_train_iter st1"
      "dl_aug_train st' = dl_aug_train st1"
    by blast
  show "dl_aug_train st' = dl_aug_train st" using aug_fetch_cases(1) [OF f] e by simp
  show "aug_train_iter st \<noteq> [] \<Longrightarrow> finish_epoch st' = finish_epoch st
           \<and> Suc (length (aug_train_iter st')) = length (aug_train_iter st)"
    using aug_fetch_cases(2) [OF f] e by simp
  show "aug_train_iter st = [] \<Longrightarrow> finish_epoch st' \<and> dl_aug_train st \<noteq> []"
    using aug_fetch_cases(3) [OF f] e by simp
qed

lemma aug_accumulate:
  assumes "accumulate n (aug_micro_batch c a) st ls = Inr (st', ls')"
  shows "dl_aug_train st' = dl_aug_train st
     \<and> (length (aug_train_iter st) < n \<longrightarrow> finish_epoch st' \<and> dl_aug_train st \<noteq> [])
     \<and> (n \<le> length (aug_train_iter st) \<longrightarrow> finish_epoch st' = finish_epoch st
           \<and> length (aug_train_iter st') + n = length (aug_train_iter st))
     \<and> (finish_epoch st \<longrightarrow> finish_epoch st')"
  using assms
proof (induction n arbitrary: st ls)
  case 0
  then show ?case by simp
next
  case (Suc n)
  from Suc.prems obtain s1 l where b: "aug_micro_batch c a st = Inr (s1, l)"
    and r: "accumulate n (aug_micro_batch c a) s1 (ls @ [l]) = Inr (st', ls')"
    by (auto simp: bind_err_def split: sum.splits)
  note ih = Suc.IH [OF r]
  note mb = aug_micro_batch_cases [OF b]
  show ?case
  proof (cases "aug_train_iter st = []")
    case True
    with mb have "finish_epoch s1" "dl_aug_train st \<noteq> []" by simp_all
    with ih mb(1) True show ?thesis by simp
  next
    case False
    with mb have e: "finish_epoch s1 = finish_epoch st"
      "Suc (length (aug_train_iter s1)) = length (aug_train_iter st)" by simp_all
    with ih mb(1) show ?thesis by auto
  qed
qed

lemma aug_phase_cases:
  assumes "aug_phase c a st = Inr st'"
  shows "dl_aug_train st' = dl_aug_train st
     \<and> (length (aug_train_iter st) < num_grad_accumulate a \<longrightarrow> finish_epoch st' \<and> dl_aug_train st \<noteq> [])
     \<and> (num_grad_accumulate a \<le> length (aug_train_iter st) \<longrightarrow> finish_epoch st' = finish_epoch st
           \<and> length (aug_train_iter st') + num_grad_accumulate a = length (aug_train_iter st))
     \<and> (finish_epoch st \<longrightarrow> finish_epoch st')"
proof -
  from assms obtain s1 ls where acc: "accumulate (num_grad_accumulate a) (aug_micro_batch c a) st [] = Inr (s1, ls)"
    and st': "st' = s1\<lparr>comps := aug_optimizer_step c (comps s1) ls\<rparr>"
    by (auto simp: aug_phase_def bind_err_def split: sum.splits)
  from aug_accumulate [OF acc] st' show ?thesis by simp
qed

lemma log_round_keeps:
  assumes "log_round a e st = Inr st'"
  shows "finish_epoch st' = finish_epoch st" and "aug_train_iter st' = aug_train_iter st"
    and "dl_aug_train st' = dl_aug_train st"
  using assms
  by (auto simp: log_round_def bind_err_def read_var_def split: if_splits option.splits)

lemma train_round_cases:
  assumes "train_round c a e st = Inr st'"
  shows "dl_aug_train st' = dl_aug_train st
     \<and> (length (aug_train_iter st) < num_grad_accumulate a \<longrightarrow> finish_epoch st' \<and> dl_aug_train st \<noteq> [])
     \<and> (num_grad_accumulate a \<le> length (aug_train_iter st) \<longrightarrow> finish_epoch st' = finish_epoch st
           \<and> length (aug_train_iter st') + num_grad_accumulate a = length (aug_train_iter st))
     \<and> (finish_epoch st \<longrightarrow> finish_epoch st')"
proof -
  from assms obtain s1 s2 where c: "cls_phase c a st = Inr s1" and g: "aug_phase c a s1 = Inr s2"
    and l: "log_round a e s2 = Inr st'"
    by (auto simp: train_round_def bind_err_def split: sum.splits)
  from cls_phase_keeps [OF c] aug_phase_cases [OF g] log_round_keeps [OF l]
  show ?thesis by simp
qed

lemma inner_loop_stops:
  assumes "train_round c a e st = Inr st'" "finish_epoch st'"
  shows "inner_loop c a e st = Some (Inr st')"
  using assms by (subst inner_loop.simps) simp

lemma inner_loop_error:
  assumes "train_round c a e st = Inl err"
  shows "inner_loop c a e st = Some (Inl err)"
  using assms by (subst inner_loop.simps) simp

lemma inner_loop_continues:
  assumes "train_round c a e st = Inr st'" "\<not> finish_epoch st'"
  shows "inner_loop c a e st = inner_loop c a e st'"
  using assms by (subst inner_loop.simps) simp

lemma inner_loop_returns:
  assumes n: "0 < num_grad_accumulate a"
  shows "\<exists>r. inner_loop c a e st = Some r"
proof (induction "length (aug_train_iter st)" arbitrary: st rule: less_induct)
  case less
  show ?case
  proof (cases "train_round c a e st")
    case (Inl err)
    then show ?thesis using inner_loop_error by blast
  next
    case (Inr st')
    show ?thesis
    proof (cases "finish_epoch st'")
      case True
      then show ?thesis using inner_loop_stops [OF Inr] by blast
    next
      case False
      from train_round_cases [OF Inr] False
      have "num_grad_accumulate a \<le> length (aug_train_iter st)"
        and "length (aug_train_iter st') + num_grad_accumulate a = length (aug_train_iter st)"
        by (auto simp: not_less [symmetric])
      then have "length (aug_train_iter st') < length (aug_train_iter st)" using n by simp
      from less [OF this] inner_loop_continues [OF Inr False] show ?thesis by simp
    qed
  qed
qed

lemma inner_loop_result_aux:
  assumes "inner_loop c a e st = Some r"
  shows "\<forall>st'. r = Inr st' \<longrightarrow> finish_epoch st' \<and> dl_aug_train st' = dl_aug_train st
           \<and> (\<not> finish_epoch st \<longrightarrow> dl_aug_train st \<noteq> [])"
proof -
  let ?P = "\<lambda>(c::collab) (a::train_args) (e::nat) st r.
     \<forall>st'. r = Inr st' \<longrightarrow> finish_epoch st' \<and> dl_aug_train st' = dl_aug_train st
           \<and> (\<not> finish_epoch st \<longrightarrow> dl_aug_train st \<noteq> [])"
  have "?P c a e st r"
  proof (rule inner_loop.raw_induct [where P = ?P, OF _ assms])
    fix loop c a epoch st r
    assume IH: "\<And>c a epoch st r. loop c a epoch st = Some r \<Longrightarrow> ?P c a epoch st r"
      and h: "(case train_round c a epoch st of Inl e \<Rightarrow> Some (Inl e)
                | Inr st' \<Rightarrow> if finish_epoch st' then Some (Inr st') else loop c a epoch st')
              = Some r"
    show "?P c a epoch st r"
    proof (cases "train_round c a epoch st")
      case (Inl err)
      with h have "r = Inl err" by simp
      then show ?thesis by simp
    next
      case (Inr s1)
      note rc = train_round_cases [OF Inr]
      from rc have d: "dl_aug_train s1 = dl_aug_train st" by (rule conjunct1)
      have ne: "\<not> finish_epoch st \<longrightarrow> finish_epoch s1 \<longrightarrow> dl_aug_train st \<noteq> []"
      proof (cases "length (aug_train_iter st) < num_grad_accumulate a")
        case True
        with rc show ?thesis by simp
      next
        case False
        with rc show ?thesis by simp
      qed
      show ?thesis
      proof (cases "finish_epoch s1")
        case True
        with Inr h have r: "r = Inr s1" by simp
        from r True d ne show ?thesis by simp
      next
        case False
        with Inr h have l: "loop c a epoch s1 = Some r" by simp
        have ih: "\<forall>st'. r = Inr st' \<longrightarrow> finish_epoch st' \<and> dl_aug_train st' = dl_aug_train s1
             \<and> (\<not> finish_epoch s1 \<longrightarrow> dl_aug_train s1 \<noteq> [])"
          by (rule IH [OF l])
        show ?thesis
        proof (intro allI impI)
          fix st' assume "r = Inr st'"
          with ih False have f: "finish_epoch st'" and e: "dl_aug_train st' = dl_aug_train s1"
            and n: "dl_aug_train s1 \<noteq> []" by simp_all
          from f e n d show "finish_epoch st' \<and> dl_aug_train st' = dl_aug_train st
             \<and> (\<not> finish_epoch st \<longrightarrow> dl_aug_train st \<noteq> [])" by simp
        qed
      qed
    qed
  qed
  then show ?thesis .
qed

lemma inner_loop_result:
  assumes "inner_loop c a e st = Some (Inr st')"
  shows "finish_epoch st'" and "dl_aug_train st' = dl_aug_train st"
    and "\<not> finish_epoch st \<Longrightarrow> dl_aug_train st \<noteq> []"
  using inner_loop_result_aux [OF assms] by simp_all

subsection \<open>The small run, step by step\<close>

lemma toy_upt_2: "[0..<2] = [0, Suc 0]"
  by (simp add: numeral_2_eq_2)

lemma toy_fields:
  "comps toy_train_state = toy_components"
  "cls_train_iter toy_train_state = [Batch toy_cls_batch]"
  "aug_train_iter toy_train_state = [toy_aug_batch]"
  "finish_epoch toy_train_state = False"
  "freq toy_train_state = 0"
  "dl_train toy_train_state = Loader [toy_cls_batch]"
  "dl_valid toy_train_state = [toy_cls_batch]"
  "dl_aug_train toy_train_state = [toy_aug_batch]"
  "dl_aug_valid toy_train_state = [toy_aug_batch]"
  "src_sequence toy_train_state = None"
  "aug_batch_iter toy_train_state = None"
  "logged toy_train_state = []"
  "best_val_loss toy_train_state = 1000"
  "best_epoch toy_train_state = None"
  "train_src_input_ids toy_train_state = Tensor2 2 [[1, 1]]"
  "train_src_attention_mask toy_train_state = Tensor2 2 [[1, 1]]"
  by (simp_all add: toy_train_state_def initial_train_state_def)

lemma toy_batches:
  "b_seq toy_cls_batch = [[1, 1]]" "b_att toy_cls_batch = [[1, 1]]"
  "b_seg toy_cls_batch = [[0, 0]]" "b_label toy_cls_batch = [[1, 0]]"
  "b_seq toy_aug_batch = [[2, 2]]" "b_att toy_aug_batch = [[1, 1]]"
  "b_seg toy_aug_batch = [[0, 0]]" "b_label toy_aug_batch = [[0, 1]]"
  by (simp_all add: toy_cls_batch_def toy_aug_batch_def)

lemma toy_args_fields:
  "num_grad_accumulate toy_args = 1" "batch_size toy_args = 1" "print_freq toy_args = 1"
  "num_labels toy_args = 2" "src_vocab_num toy_args = 3" "label_smoothing_eps toy_args = 0"
  by (simp_all add: toy_args_def)

lemma toy_collab_fields:
  "cls_model toy_collab cs m seq att seg = map (\<lambda>r. [0, 0]) seq"
  "aug_model toy_collab cs m seq att seg =
     \<lparr>enc_out = map (map (\<lambda>t. [real_of_int t])) seq, dec_out = map (map one_hot3) seq,
      latent = map (\<lambda>r. [0]) seq\<rparr>"
  "cross_entropy toy_collab = count_missed"
  "cross_entropy_prob toy_collab eps logits labels = 0"
  "mmd_prior toy_collab z = 0"
  "mmd_pair toy_collab en z = 0"
  "batch_decode toy_collab toks = map (\<lambda>r. ''text'') toks"
  "tokenizer toy_collab texts =
     \<lparr>enc_input_ids = Tensor2 2 (map (\<lambda>t. [1, 2]) texts),
      enc_token_type_ids = Tensor2 2 (map (\<lambda>t. [0, 0]) texts),
      enc_attention_mask = Tensor2 2 (map (\<lambda>t. [1, 1]) texts)\<rparr>"
  "cls_optimizer_step toy_collab cs losses = cs"
  "aug_optimizer_step toy_collab cs losses = cs"
  "aug_pad_idx toy_collab = 0"
  by (simp_all add: toy_collab_def)

lemma toy_count_missed:
  "count_missed 0 0 [[0, 0, 1], [0, 0, 1]] [2, 2] = 0"
  "count_missed 0 0 [[0, 0, 1], [0, 0, 1]] [1, 1] = 2"
  "count_missed 0 (- 100) [[0, 1, 0], [0, 1, 0]] [1, 1] = 0"
  by (simp_all add: count_missed_def)

lemma toy_confidence: "flatten_confidence_loss (Suc 0) 2 [softmax [0, 0]] = Inr 1"
  by (simp add: flatten_confidence_loss_def softmax_def)

lemma toy_views:
  "view_rows (Suc 0) [0::real] = Inr [[0]]"
  "view_rows (Suc 0) [1, 1::real] = Inr [[1, 1]]"
  "view_width 3 [0, 0, 1, 0, 0, 1::real] = Inr [[0, 0, 1], [0, 0, 1]]"
  "view_width 3 [0, 1, 0, 0, 1, 0::real] = Inr [[0, 1, 0], [0, 1, 0]]"
  by (simp_all add: view_rows_def view_width_def chunks_def toy_upt_2)

text \<open>The first round.\<close>

lemma toy_cls_fetch:
  "cls_fetch toy_train_state = Inr (Batch toy_cls_batch, toy_train_state\<lparr>cls_train_iter := []\<rparr>)"
  by (simp add: cls_fetch_def toy_fields)

lemma toy_cls_micro_batch:
  "cls_micro_batch toy_collab toy_args toy_train_state = Inr (toy_after_cls, 0)"
  by (simp add: cls_micro_batch_def toy_cls_fetch bind_err_def toy_batches toy_collab_fields
      toy_args_fields toy_after_cls_def)

lemma toy_cls_phase: "cls_phase toy_collab toy_args toy_train_state = Inr toy_after_cls"
  by (simp add: cls_phase_def toy_args_fields toy_cls_micro_batch bind_err_def toy_collab_fields)

lemma toy_after_cls_fields:
  "comps toy_after_cls = toy_components"
  "cls_train_iter toy_after_cls = []"
  "aug_train_iter toy_after_cls = [toy_aug_batch]"
  "finish_epoch toy_after_cls = False"
  "freq toy_after_cls = 0"
  "dl_train toy_after_cls = Loader [toy_cls_batch]"
  "dl_aug_train toy_after_cls = [toy_aug_batch]"
  "src_sequence toy_after_cls = Some [[1, 1]]"
  "cls_loss_v toy_after_cls = Some 0"
  "logged toy_after_cls = []"
  by (simp_all add: toy_after_cls_def toy_fields)

lemma toy_aug_fetch:
  "aug_fetch toy_after_cls =
     Inr (toy_aug_batch, toy_after_cls\<lparr>aug_train_iter := [], aug_batch_iter := Some toy_aug_batch\<rparr>)"
  by (simp add: aug_fetch_def toy_after_cls_fields)

lemma toy_aug_micro_batch:
  "aug_micro_batch toy_collab toy_args toy_after_cls =
     Inr (toy_after_cls\<lparr>aug_train_iter := [], aug_batch_iter := Some toy_aug_batch,
            ce_loss_v := Some 2, mmd_loss_v := Some 0, new_loss_v := Some 1\<rparr>, 3)"
  by (simp add: aug_micro_batch_def toy_aug_fetch bind_err_def Let_def toy_collab_fields
      toy_args_fields toy_batches one_hot3_def toy_views read_var_def toy_after_cls_fields
      class_loss_def toy_count_missed toy_confidence)

lemma toy_aug_phase:
  "aug_phase toy_collab toy_args toy_after_cls =
     Inr (toy_after_cls\<lparr>aug_train_iter := [], aug_batch_iter := Some toy_aug_batch,
            ce_loss_v := Some 2, mmd_loss_v := Some 0, new_loss_v := Some 1\<rparr>)"
  by (simp add: aug_phase_def toy_args_fields toy_aug_micro_batch bind_err_def toy_collab_fields
      toy_after_cls_fields)

lemma toy_first_round: "train_round toy_collab toy_args 1 toy_train_state = Inr toy_after_round"
  by (simp add: train_round_def toy_cls_phase toy_aug_phase bind_err_def log_round_def
      toy_args_fields read_var_def toy_after_cls_fields len_train_def)
    (simp add: toy_after_cls_def toy_after_round_def)

text \<open>The second round.\<close>

lemma toy_after_round_fields:
  "comps toy_after_round = toy_components"
  "cls_train_iter toy_after_round = []"
  "aug_train_iter toy_after_round = []"
  "finish_epoch toy_after_round = False"
  "freq toy_after_round = 1"
  "dl_train toy_after_round = Loader [toy_cls_batch]"
  "dl_aug_train toy_after_round = [toy_aug_batch]"
  "src_sequence toy_after_round = Some [[1, 1]]"
  "cls_loss_v toy_after_round = Some 0"
  "ce_loss_v toy_after_round = Some 2"
  "mmd_loss_v toy_after_round = Some 0"
  "new_loss_v toy_after_round = Some 1"
  "logged toy_after_round = [IterLog 1 1 1 0 2 0 1]"
  by (simp_all add: toy_after_round_def toy_fields)

lemma toy_cls_fetch_again:
  "cls_fetch toy_after_round = Inr (Batch toy_cls_batch, toy_after_round)"
  by (simp add: cls_fetch_def toy_after_round_fields iter_train_def)

lemma toy_cls_micro_batch_again:
  "cls_micro_batch toy_collab toy_args toy_after_round = Inr (toy_after_round, 0)"
  by (simp add: cls_micro_batch_def toy_cls_fetch_again bind_err_def toy_batches
      toy_collab_fields toy_args_fields)
    (simp add: toy_after_round_def)

lemma toy_cls_phase_again: "cls_phase toy_collab toy_args toy_after_round = Inr toy_after_round"
  by (simp add: cls_phase_def toy_args_fields toy_cls_micro_batch_again bind_err_def
      toy_collab_fields)

lemma toy_aug_fetch_again:
  "aug_fetch toy_after_round = Inr (toy_aug_batch, toy_after_round\<lparr>finish_epoch := True\<rparr>)"
  by (simp add: aug_fetch_def toy_after_round_fields)
    (simp add: toy_after_round_def)

lemma toy_aug_micro_batch_again:
  "aug_micro_batch toy_collab toy_args toy_after_round =
     Inr (toy_after_round\<lparr>finish_epoch := True\<rparr>, 3)"
  by (simp add: aug_micro_batch_def toy_aug_fetch_again bind_err_def Let_def toy_collab_fields
      toy_args_fields toy_batches one_hot3_def toy_views read_var_def toy_after_round_fields
      class_loss_def toy_count_missed toy_confidence)

lemma toy_aug_phase_again:
  "aug_phase toy_collab toy_args toy_after_round = Inr (toy_after_round\<lparr>finish_epoch := True\<rparr>)"
  by (simp add: aug_phase_def toy_args_fields toy_aug_micro_batch_again bind_err_def
      toy_collab_fields toy_after_round_fields)

lemma toy_second_round: "train_round toy_collab toy_args 1 toy_after_round = Inr toy_after_loop"
  by (simp add: train_round_def toy_cls_phase_again toy_aug_phase_again bind_err_def log_round_def
      toy_args_fields read_var_def toy_after_round_fields len_train_def)
    (simp add: toy_after_loop_def)

lemma toy_after_loop_fields:
  "comps toy_after_loop = toy_components"
  "finish_epoch toy_after_loop = True"
  "dl_valid toy_after_loop = [toy_cls_batch]"
  "dl_aug_valid toy_after_loop = [toy_aug_batch]"
  "dl_aug_train toy_after_loop = [toy_aug_batch]"
  "aug_batch_iter toy_after_loop = Some toy_aug_batch"
  "src_sequence toy_after_loop = Some [[1, 1]]"
  "src_att toy_after_loop = Some [[1, 1]]"
  "src_seg toy_after_loop = Some [[0, 0]]"
  "train_src_input_ids toy_after_loop = Tensor2 2 [[1, 1]]"
  by (simp_all add: toy_after_loop_def toy_after_round_def toy_fields)

lemma toy_inner_loop:
  "inner_loop toy_collab toy_args 1 toy_train_state = Some (Inr toy_after_loop)"
  "inner_loop toy_collab toy_args 1 toy_after_round = Some (Inr toy_after_loop)"
proof -
  show l: "inner_loop toy_collab toy_args 1 toy_after_round = Some (Inr toy_after_loop)"
    by (rule inner_loop_stops [OF toy_second_round]) (simp add: toy_after_loop_fields)
  show "inner_loop toy_collab toy_args 1 toy_train_state = Some (Inr toy_after_loop)"
    using inner_loop_continues [OF toy_first_round] l by (simp add: toy_after_round_fields)
qed

text \<open>
  Claim C4. When the classifier's iterator is exhausted and its loader has a batch, the
  read is answered from a new iterator; the classifier phase never changes
  \<open>finish_epoch\<close>, and a round in which the augmenter's iterator still holds
  \<open>num_grad_accumulate\<close> batches leaves the flag as it was. When the augmenter's iterator is
  exhausted, the read is answered from a new iterator and sets the flag; an augmenter
  phase that runs out of batches, at whichever micro-batch, ends with the flag set, and
  the inner loop ends with that round. With at least one micro-batch per round the inner
  loop always ends, and whenever it ends without an exception the flag is set.
\<close>

theorem data_source_exhaustion:
  "(cls_train_iter s1 = [] \<and> dl_train s1 = Loader (b # bs) \<longrightarrow>
      cls_fetch s1 = Inr (Batch b, s1\<lparr>cls_train_iter := map Batch bs\<rparr>))
   \<and> (cls_phase c a s2 = Inr s2' \<longrightarrow> finish_epoch s2' = finish_epoch s2)
   \<and> (train_round c a e s3 = Inr s3' \<and> num_grad_accumulate a \<le> length (aug_train_iter s3) \<longrightarrow>
        finish_epoch s3' = finish_epoch s3)
   \<and> (aug_train_iter s4 = [] \<and> dl_aug_train s4 = b' # bs' \<longrightarrow>
        aug_fetch s4 = Inr (b', s4\<lparr>aug_train_iter := bs', aug_batch_iter := Some b',
                                     finish_epoch := True\<rparr>))
   \<and> (aug_phase c a s5 = Inr s5' \<and> length (aug_train_iter s5) < num_grad_accumulate a \<longrightarrow>
        finish_epoch s5')
   \<and> (train_round c a e s6 = Inr s6' \<and> length (aug_train_iter s6) < num_grad_accumulate a \<longrightarrow>
        finish_epoch s6' \<and> inner_loop c a e s6 = Some (Inr s6'))
   \<and> (0 < num_grad_accumulate a \<longrightarrow> (\<exists>r. inner_loop c a e s7 = Some r))
   \<and> (inner_loop c a e s8 = Some (Inr s8') \<longrightarrow> finish_epoch s8')"
proof (intro conjI impI)
  assume "cls_train_iter s1 = [] \<and> dl_train s1 = Loader (b # bs)"
  then show "cls_fetch s1 = Inr (Batch b, s1\<lparr>cls_train_iter := map Batch bs\<rparr>)"
    using cls_fetch_recovers by blast
next
  assume "cls_phase c a s2 = Inr s2'"
  then show "finish_epoch s2' = finish_epoch s2" by (rule cls_phase_keeps(1))
next
  assume "train_round c a e s3 = Inr s3' \<and> num_grad_accumulate a \<le> length (aug_train_iter s3)"
  then show "finish_epoch s3' = finish_epoch s3" using train_round_cases by blast
next
  assume "aug_train_iter s4 = [] \<and> dl_aug_train s4 = b' # bs'"
  then show "aug_fetch s4 = Inr (b', s4\<lparr>aug_train_iter := bs', aug_batch_iter := Some b',
                                     finish_epoch := True\<rparr>)"
    using aug_fetch_exhausted by blast
next
  assume "aug_phase c a s5 = Inr s5' \<and> length (aug_train_iter s5) < num_grad_accumulate a"
  then show "finish_epoch s5'" using aug_phase_cases by blast
next
  assume h: "train_round c a e s6 = Inr s6' \<and> length (aug_train_iter s6) < num_grad_accumulate a"
  then show f: "finish_epoch s6'" using train_round_cases by blast
  from h f show "inner_loop c a e s6 = Some (Inr s6')" using inner_loop_stops by blast
next
  assume "0 < num_grad_accumulate a"
  then show "\<exists>r. inner_loop c a e s7 = Some r" by (rule inner_loop_returns)
next
  assume "inner_loop c a e s8 = Some (Inr s8')"
  then show "finish_epoch s8'" by (rule inner_loop_result(1))
qed

theorem data_source_exhaustion_witness:
  "cls_train_iter toy_after_round = [] \<and> dl_train toy_after_round = Loader [toy_cls_batch]
   \<and> cls_fetch toy_after_round = Inr (Batch toy_cls_batch, toy_after_round\<lparr>cls_train_iter := []\<rparr>)
   \<and> cls_phase toy_collab toy_args toy_train_state = Inr toy_after_cls
   \<and> finish_epoch toy_after_cls = finish_epoch toy_train_state
   \<and> train_round toy_collab toy_args 1 toy_train_state = Inr toy_after_round
   \<and> num_grad_accumulate toy_args \<le> length (aug_train_iter toy_train_state)
   \<and> finish_epoch toy_after_round = finish_epoch toy_train_state
   \<and> aug_train_iter toy_after_round = [] \<and> dl_aug_train toy_after_round = [toy_aug_batch]
   \<and> aug_fetch toy_after_round =
        Inr (toy_aug_batch, toy_after_round\<lparr>aug_train_iter := [],
               aug_batch_iter := Some toy_aug_batch, finish_epoch := True\<rparr>)
   \<and> aug_phase toy_collab toy_args toy_after_round = Inr (toy_after_round\<lparr>finish_epoch := True\<rparr>)
   \<and> length (aug_train_iter toy_after_round) < num_grad_accumulate toy_args
   \<and> train_round toy_collab toy_args 1 toy_after_round = Inr toy_after_loop
   \<and> finish_epoch toy_after_loop
   \<and> inner_loop toy_collab toy_args 1 toy_after_round = Some (Inr toy_after_loop)
   \<and> 0 < num_grad_accumulate toy_args
   \<and> (\<exists>r. inner_loop toy_collab toy_args 1 toy_train_state = Some r)
   \<and> inner_loop toy_collab toy_args 1 toy_train_state = Some (Inr toy_after_loop)"
proof -
  have h: "cls_train_iter toy_after_round = []" "dl_train toy_after_round = Loader [toy_cls_batch]"
    "cls_phase toy_collab toy_args toy_train_state = Inr toy_after_cls"
    "train_round toy_collab toy_args 1 toy_train_state = Inr toy_after_round"
    "num_grad_accumulate toy_args \<le> length (aug_train_iter toy_train_state)"
    "aug_train_iter toy_after_round = []" "dl_aug_train toy_after_round = [toy_aug_batch]"
    "aug_phase toy_collab toy_args toy_after_round = Inr (toy_after_round\<lparr>finish_epoch := True\<rparr>)"
    "length (aug_train_iter toy_after_round) < num_grad_accumulate toy_args"
    "train_round toy_collab toy_args 1 toy_after_round = Inr toy_after_loop"
    "0 < num_grad_accumulate toy_args"
    "inner_loop toy_collab toy_args 1 toy_train_state = Some (Inr toy_after_loop)"
    using toy_first_round toy_second_round toy_inner_loop(1)
    by (simp_all add: toy_after_round_fields toy_cls_phase toy_args_fields toy_fields
        toy_aug_phase_again)
  note t = data_source_exhaustion
    [where ?s1.0 = toy_after_round and b = toy_cls_batch and bs = "[]"
       and c = toy_collab and a = toy_args and ?s2.0 = toy_train_state and s2' = toy_after_cls
       and e = 1 and ?s3.0 = toy_train_state and s3' = toy_after_round
       and ?s4.0 = toy_after_round and b' = toy_aug_batch and bs' = "[]"
       and ?s5.0 = toy_after_round and s5' = "toy_after_round\<lparr>finish_epoch := True\<rparr>"
       and ?s6.0 = toy_after_round and s6' = toy_after_loop
       and ?s7.0 = toy_train_state and ?s8.0 = toy_train_state and s8' = toy_after_loop]
  from t h show ?thesis by simp
qed

subsection \<open>The loss of an augmenter micro-batch\<close>

text \<open>
  The loss that an augmenter micro-batch back-propagates is the sum of ten times the
  regularizer, the reconstruction loss and the flatten-confidence loss. The
  reconstruction loss is taken against \<open>src_sequence\<close> as the micro-batch finds it, that
  is, against the tokens that the classifier phase read last, with the augmenter's pad
  index ignored; the confidence comes from a forward pass without gradient tracking.
\<close>

lemma aug_fetch_same:
  assumes "aug_fetch st = Inr (b, st1)"
  shows "comps st1 = comps st" and "src_sequence st1 = src_sequence st"
  using assms by (auto simp: aug_fetch_def split: list.splits)

lemma bind_err_Inr:
  "bind_err m f = Inr y \<Longrightarrow> \<exists>x. m = Inr x \<and> f x = Inr y"
  by (cases m) (simp_all add: bind_err_def)

lemma aug_micro_batch_loss_terms:
  assumes "aug_micro_batch c a st = Inr (st', total_loss)"
  shows "\<exists>b st1 z logits src new_loss.
           aug_fetch st = Inr (b, st1)
         \<and> src_sequence st = Some src
         \<and> view_rows (batch_size a) (concat (latent (aug_model c (comps st) Grad (b_seq b) (b_att b) (b_seg b)))) = Inr z
         \<and> view_width (src_vocab_num a) (concat (concat (dec_out (aug_model c (comps st) Grad (b_seq b) (b_att b) (b_seg b))))) = Inr logits
         \<and> flatten_confidence_loss
              (length (batch_decode c (map (map argmax) (dec_out (aug_model c (comps st) Grad (b_seq b) (b_att b) (b_seg b))))))
              (num_labels a)
              (map softmax (cls_model c (comps st) NoGrad
                 (rows (enc_input_ids (tokenizer c (batch_decode c (map (map argmax) (dec_out (aug_model c (comps st) Grad (b_seq b) (b_att b) (b_seg b))))))))
                 (rows (enc_attention_mask (tokenizer c (batch_decode c (map (map argmax) (dec_out (aug_model c (comps st) Grad (b_seq b) (b_att b) (b_seg b))))))))
                 (rows (enc_token_type_ids (tokenizer c (batch_decode c (map (map argmax) (dec_out (aug_model c (comps st) Grad (b_seq b) (b_att b) (b_seg b)))))))))) = Inr new_loss
         \<and> total_loss = mmd_prior c z * 10
                     + cross_entropy c (label_smoothing_eps a) (aug_pad_idx c) logits (concat src)
                     + new_loss"
proof -
  from bind_err_Inr [OF assms [unfolded aug_micro_batch_def]]
  obtain b st1 where f: "aug_fetch st = Inr (b, st1)"
    and r1: "(let out = aug_model c (comps st1) Grad (b_seq b) (b_att b) (b_seg b) in
     bind_err (view_rows (batch_size a) (concat (latent out))) (\<lambda>z.
     let mmd_loss = mmd_prior c z * 10 in
     bind_err (view_width (src_vocab_num a) (concat (concat (dec_out out)))) (\<lambda>logits.
     bind_err (read_var ''src_sequence'' (src_sequence st1)) (\<lambda>src.
     bind_err (class_loss c (label_smoothing_eps a) (aug_pad_idx c) logits (concat src)) (\<lambda>ce_loss.
     let decoder_out_token = map (map argmax) (dec_out out);
         augmented_output = batch_decode c decoder_out_token;
         augmented_tokenized = tokenizer c augmented_output;
         logit = cls_model c (comps st1) NoGrad
                   (rows (enc_input_ids augmented_tokenized))
                   (rows (enc_attention_mask augmented_tokenized))
                   (rows (enc_token_type_ids augmented_tokenized));
         confidence = map softmax logit in
     bind_err (flatten_confidence_loss (length augmented_output) (num_labels a) confidence)
       (\<lambda>new_loss.
     let total_loss = mmd_loss + ce_loss + new_loss in
     Inr (st1\<lparr>ce_loss_v := Some ce_loss, mmd_loss_v := Some mmd_loss,
               new_loss_v := Some new_loss\<rparr>, total_loss))))))) = Inr (st', total_loss)"
    by auto
  note same = aug_fetch_same [OF f]
  let ?out = "aug_model c (comps st) Grad (b_seq b) (b_att b) (b_seg b)"
  from bind_err_Inr [OF r1 [unfolded Let_def same]]
  obtain z where z: "view_rows (batch_size a) (concat (latent ?out)) = Inr z"
    and r2: "bind_err (view_width (src_vocab_num a) (concat (concat (dec_out ?out)))) (\<lambda>logits.
     bind_err (read_var ''src_sequence'' (src_sequence st)) (\<lambda>src.
     bind_err (class_loss c (label_smoothing_eps a) (aug_pad_idx c) logits (concat src)) (\<lambda>ce_loss.
     bind_err (flatten_confidence_loss (length (batch_decode c (map (map argmax) (dec_out ?out))))
        (num_labels a)
        (map softmax (cls_model c (comps st) NoGrad
           (rows (enc_input_ids (tokenizer c (batch_decode c (map (map argmax) (dec_out ?out))))))
           (rows (enc_attention_mask (tokenizer c (batch_decode c (map (map argmax) (dec_out ?out))))))
           (rows (enc_token_type_ids (tokenizer c (batch_decode c (map (map argmax) (dec_out ?out)))))))))
       (\<lambda>new_loss.
     Inr (st1\<lparr>ce_loss_v := Some ce_loss, mmd_loss_v := Some (mmd_prior c z * 10),
               new_loss_v := Some new_loss\<rparr>, mmd_prior c z * 10 + ce_loss + new_loss))))) = Inr (st', total_loss)"
    by blast
  from bind_err_Inr [OF r2] obtain logits
    where lg: "view_width (src_vocab_num a) (concat (concat (dec_out ?out))) = Inr logits"
    and r3: "bind_err (read_var ''src_sequence'' (src_sequence st)) (\<lambda>src.
     bind_err (class_loss c (label_smoothing_eps a) (aug_pad_idx c) logits (concat src)) (\<lambda>ce_loss.
     bind_err (flatten_confidence_loss (length (batch_decode c (map (map argmax) (dec_out ?out))))
        (num_labels a)
        (map softmax (cls_model c (comps st) NoGrad
           (rows (enc_input_ids (tokenizer c (batch_decode c (map (map argmax) (dec_out ?out))))))
           (rows (enc_attention_mask (tokenizer c (batch_decode c (map (map argmax) (dec_out ?out))))))
           (rows (enc_token_type_ids (tokenizer c (batch_decode c (map (map argmax) (dec_out ?out)))))))))
       (\<lambda>new_loss.
     Inr (st1\<lparr>ce_loss_v := Some ce_loss, mmd_loss_v := Some (mmd_prior c z * 10),
               new_loss_v := Some new_loss\<rparr>, mmd_prior c z * 10 + ce_loss + new_loss)))) = Inr (st', total_loss)"
    by blast
  from bind_err_Inr [OF r3] obtain src
    where sv: "read_var ''src_sequence'' (src_sequence st) = Inr src"
    and r4: "bind_err (class_loss c (label_smoothing_eps a) (aug_pad_idx c) logits (concat src)) (\<lambda>ce_loss.
     bind_err (flatten_confidence_loss (length (batch_decode c (map (map argmax) (dec_out ?out))))
        (num_labels a)
        (map softmax (cls_model c (comps st) NoGrad
           (rows (enc_input_ids (tokenizer c (batch_decode c (map (map argmax) (dec_out ?out))))))
           (rows (enc_attention_mask (tokenizer c (batch_decode c (map (map argmax) (dec_out ?out))))))
           (rows (enc_token_type_ids (tokenizer c (batch_decode c (map (map argmax) (dec_out ?out)))))))))
       (\<lambda>new_loss.
     Inr (st1\<lparr>ce_loss_v := Some ce_loss, mmd_loss_v := Some (mmd_prior c z * 10),
               new_loss_v := Some new_loss\<rparr>, mmd_prior c z * 10 + ce_loss + new_loss))) = Inr (st', total_loss)"
    by blast
  from sv have src: "src_sequence st = Some src"
    by (cases "src_sequence st") (simp_all add: read_var_def)
  from bind_err_Inr [OF r4] obtain ce_loss
    where ce: "class_loss c (label_smoothing_eps a) (aug_pad_idx c) logits (concat src) = Inr ce_loss"
    and r5: "bind_err (flatten_confidence_loss (length (batch_decode c (map (map argmax) (dec_out ?out))))
        (num_labels a)
        (map softmax (cls_model c (comps st) NoGrad
           (rows (enc_input_ids (tokenizer c (batch_decode c (map (map argmax) (dec_out ?out))))))
           (rows (enc_attention_mask (tokenizer c (batch_decode c (map (map argmax) (dec_out ?out))))))
           (rows (enc_token_type_ids (tokenizer c (batch_decode c (map (map argmax) (dec_out ?out)))))))))
       (\<lambda>new_loss.
     Inr (st1\<lparr>ce_loss_v := Some ce_loss, mmd_loss_v := Some (mmd_prior c z * 10),
               new_loss_v := Some new_loss\<rparr>, mmd_prior c z * 10 + ce_loss + new_loss)) = Inr (st', total_loss)"
    by blast
  from ce have ce': "ce_loss = cross_entropy c (label_smoothing_eps a) (aug_pad_idx c) logits (concat src)"
    by (simp add: class_loss_def split: if_splits)
  from bind_err_Inr [OF r5] obtain new_loss
    where nl: "flatten_confidence_loss (length (batch_decode c (map (map argmax) (dec_out ?out))))
        (num_labels a)
        (map softmax (cls_model c (comps st) NoGrad
           (rows (enc_input_ids (tokenizer c (batch_decode c (map (map argmax) (dec_out ?out))))))
           (rows (enc_attention_mask (tokenizer c (batch_decode c (map (map argmax) (dec_out ?out))))))
           (rows (enc_token_type_ids (tokenizer c (batch_decode c (map (map argmax) (dec_out ?out)))))))) = Inr new_loss"
    and tl: "total_loss = mmd_prior c z * 10 + ce_loss + new_loss"
    by auto
  from f src z lg nl tl ce' show ?thesis by blast
qed

text \<open>
  Claim C2 (the code departs from it). The classifier phase reads the text \<open>[1, 1]\<close>; the
  augmenter micro-batch then encodes \<open>[2, 2]\<close> and reproduces it exactly. Its
  reconstruction loss is nevertheless 2, the loss against the classifier's text, where
  the loss against its own source tokens is 0; the back-propagated loss is 3.
\<close>

theorem recon_loss_against_classifier_batch:
  "cls_phase toy_collab toy_args toy_train_state = Inr toy_after_cls
   \<and> src_sequence toy_after_cls = Some (b_seq toy_cls_batch)
   \<and> aug_micro_batch toy_collab toy_args toy_after_cls =
       Inr (toy_after_cls\<lparr>aug_train_iter := [], aug_batch_iter := Some toy_aug_batch,
              ce_loss_v := Some 2, mmd_loss_v := Some 0, new_loss_v := Some 1\<rparr>, 3)
   \<and> dec_out (aug_model toy_collab (comps toy_after_cls) Grad (b_seq toy_aug_batch)
                (b_att toy_aug_batch) (b_seg toy_aug_batch)) = [[[0, 0, 1], [0, 0, 1]]]
   \<and> cross_entropy toy_collab 0 (aug_pad_idx toy_collab) [[0, 0, 1], [0, 0, 1]]
         (concat (b_seq toy_aug_batch)) = 0
   \<and> cross_entropy toy_collab 0 (aug_pad_idx toy_collab) [[0, 0, 1], [0, 0, 1]]
         (concat (b_seq toy_cls_batch)) = 2"
  by (simp add: toy_cls_phase toy_aug_micro_batch toy_after_cls_fields toy_batches
      toy_collab_fields one_hot3_def toy_count_missed)

subsection \<open>Online augmentation\<close>

lemma getitem_typo: "getitem enc ''attetntion_mask'' = Inl (KeyError ''attetntion_mask'')"
  by (simp add: getitem_def encoding_dict_def)

lemma getitem_input_ids: "getitem enc ''input_ids'' = Inr (enc_input_ids enc)"
  by (simp add: getitem_def encoding_dict_def)

lemma augment_batch_fails: "augment_batch c a st b \<noteq> Inr st'"
  by (simp add: augment_batch_def bind_err_def getitem_typo getitem_input_ids read_var_def Let_def
      split: sum.splits option.splits)

lemma augment_batch_KeyError:
  assumes "aug_batch_iter st = Some ab" "src_sequence st = Some s" "src_att st = Some t"
    "src_seg st = Some g"
    "ncols (enc_input_ids (tokenizer c (batch_decode c (map (map argmax)
        (dec_out (aug_model c (comps st) NoGrad s t g)))))) = ncols (train_src_input_ids st)"
  shows "augment_batch c a st b = Inl (KeyError ''attetntion_mask'')"
  using assms
  by (simp add: augment_batch_def bind_err_def getitem_typo getitem_input_ids read_var_def Let_def
      np_concatenate_def)

lemma fold_err_fails:
  assumes "\<And>s x s'. body s x \<noteq> Inr s'" "xs \<noteq> []"
  shows "fold_err body s xs \<noteq> Inr s'"
  using assms by (cases xs) (auto simp: bind_err_def split: sum.splits)

lemma augmentation_pass_fails:
  "dl_aug_train st \<noteq> [] \<Longrightarrow> augmentation_pass c a st \<noteq> Inr st'"
  using fold_err_fails [of "augment_batch c a" "dl_aug_train st" st, OF augment_batch_fails]
  by (auto simp: augmentation_pass_def bind_err_def split: sum.splits)

lemma augmentation_pass_empty:
  "augmentation_pass c a st = Inr st' \<Longrightarrow>
     dl_aug_train st = [] \<and> train_src_input_ids st' = train_src_input_ids st
     \<and> train_src_attention_mask st' = train_src_attention_mask st
     \<and> train_src_token_type_ids st' = train_src_token_type_ids st
     \<and> train_trg_list st' = train_trg_list st"
proof -
  assume a: "augmentation_pass c a st = Inr st'"
  then have e: "dl_aug_train st = []" using augmentation_pass_fails by blast
  with a show ?thesis by (auto simp: augmentation_pass_def bind_err_def)
qed


lemma cls_valid_fold_keeps:
  "foldl (cls_valid_batch c a) (st, v) bs = (st', v') \<Longrightarrow> dl_aug_train st' = dl_aug_train st"
proof (induction bs arbitrary: st v)
  case Nil
  then show ?case by simp
next
  case (Cons b bs)
  obtain s1 v1 where s: "cls_valid_batch c a (st, v) b = (s1, v1)" by (cases "cls_valid_batch c a (st, v) b")
  then have "dl_aug_train s1 = dl_aug_train st"
    by (auto simp: cls_valid_batch_def Let_def)
  with Cons s show ?case by simp
qed

lemma cls_validation_keeps:
  assumes "cls_validation c a st = Inr st'"
  shows "dl_aug_train st' = dl_aug_train st"
proof -
  obtain s1 v1 where f: "foldl (cls_valid_batch c a) (st, 0) (dl_valid st) = (s1, v1)"
    by (cases "foldl (cls_valid_batch c a) (st, 0) (dl_valid st)")
  with assms have "dl_aug_train st' = dl_aug_train s1"
    by (auto simp: cls_validation_def split: if_splits)
  with cls_valid_fold_keeps [OF f] show ?thesis by simp
qed

lemma aug_valid_batch_keeps:
  assumes "aug_valid_batch c a (st, v, w) b = Inr (st', v', w')"
  shows "dl_aug_train st' = dl_aug_train st"
  using assms
  by (auto simp: aug_valid_batch_def bind_err_def Let_def split: sum.splits)

lemma aug_valid_fold_keeps:
  "fold_err (aug_valid_batch c a) (st, v, w) bs = Inr (st', v', w') \<Longrightarrow>
     dl_aug_train st' = dl_aug_train st"
proof (induction bs arbitrary: st v w)
  case Nil
  then show ?case by simp
next
  case (Cons b bs)
  from Cons.prems obtain s1 v1 w1 where s: "aug_valid_batch c a (st, v, w) b = Inr (s1, v1, w1)"
    and r: "fold_err (aug_valid_batch c a) (s1, v1, w1) bs = Inr (st', v', w')"
    by (auto simp: bind_err_def split: sum.splits)
  from Cons.IH [OF r] aug_valid_batch_keeps [OF s] show ?case by simp
qed

lemma aug_validation_keeps:
  assumes "aug_validation c a st = Inr (st', v)"
  shows "dl_aug_train st' = dl_aug_train st"
proof -
  from assms obtain s1 v1 w1 where f: "fold_err (aug_valid_batch c a) (st, 0, 0) (dl_aug_valid st) = Inr (s1, v1, w1)"
    and e: "dl_aug_train st' = dl_aug_train s1"
    by (auto simp: aug_validation_def bind_err_def split: sum.splits if_splits)
  with aug_valid_fold_keeps [OF f] show ?thesis by simp
qed

text \<open>
  No epoch ends without an exception: the inner loop only ends after the augmenter's
  loader has yielded a batch, and the augmentation pass over a loader that has a batch
  raises at line 394 (or before).
\<close>

lemma run_epoch_never_completes: "run_epoch c a e st \<noteq> Some (Inr st')"
proof
  assume r: "run_epoch c a e st = Some (Inr st')"
  let ?st0 = "st\<lparr>finish_epoch := False, freq := 0\<rparr>"
  from r obtain s1 where l: "inner_loop c a e ?st0 = Some (Inr s1)"
    and t: "after_training c a e s1 = Inr st'"
    by (auto simp: run_epoch_def split: option.splits sum.splits)
  have "dl_aug_train ?st0 \<noteq> []" by (rule inner_loop_result(3) [OF l]) simp
  with inner_loop_result(2) [OF l] have ne: "dl_aug_train s1 \<noteq> []" by simp
  from t obtain s2 s3 v where cv: "cls_validation c a s1 = Inr s2"
    and av: "aug_validation c a s2 = Inr (s3, v)"
    and ap: "\<exists>s4. augmentation_pass c a s3 = Inr s4"
    by (auto simp: after_training_def bind_err_def split: sum.splits)
  from cls_validation_keeps [OF cv] aug_validation_keeps [OF av] ne
  have "dl_aug_train s3 \<noteq> []" by simp
  with ap augmentation_pass_fails show False by blast
qed

text \<open>The rest of the first epoch of the small run.\<close>

lemma toy_reset: "toy_train_state\<lparr>finish_epoch := False, freq := 0\<rparr> = toy_train_state"
  by (simp add: toy_train_state_def initial_train_state_def)

lemma toy_cls_validation:
  "cls_validation toy_collab toy_args toy_after_loop =
     Inr (toy_after_loop\<lparr>logged := logged toy_after_loop @ [ValCls 0]\<rparr>)"
  by (simp add: cls_validation_def cls_valid_batch_def toy_after_loop_fields toy_batches
      toy_collab_fields toy_args_fields Let_def)
    (simp add: toy_after_loop_def toy_after_round_def)

lemma toy_aug_valid_batch:
  "aug_valid_batch toy_collab toy_args
     (toy_after_loop\<lparr>logged := logged toy_after_loop @ [ValCls 0]\<rparr>, 0, 0) toy_aug_batch =
   Inr (toy_after_loop\<lparr>logged := logged toy_after_loop @ [ValCls 0],
          mmd_loss_v := Some 0, ce_loss_v := Some 0\<rparr>, 0, 0)"
  by (simp add: aug_valid_batch_def bind_err_def read_var_def Let_def toy_after_loop_fields
      toy_collab_fields toy_args_fields toy_views one_hot3_def class_loss_def toy_count_missed)

lemma toy_aug_validation:
  "aug_validation toy_collab toy_args (toy_after_loop\<lparr>logged := logged toy_after_loop @ [ValCls 0]\<rparr>) =
   Inr (toy_after_loop\<lparr>logged := logged toy_after_loop @ [ValCls 0, ValAug 0 0],
          mmd_loss_v := Some 0, ce_loss_v := Some 0\<rparr>, 0)"
  by (simp add: aug_validation_def toy_after_loop_fields toy_aug_valid_batch bind_err_def)

lemma toy_augmentation_pass:
  "augmentation_pass toy_collab toy_args
     (toy_after_loop\<lparr>logged := logged toy_after_loop @ [ValCls 0, ValAug 0 0],
        mmd_loss_v := Some 0, ce_loss_v := Some 0\<rparr>) = Inl (KeyError ''attetntion_mask'')"
proof -
  let ?st = "toy_after_loop\<lparr>logged := logged toy_after_loop @ [ValCls 0, ValAug 0 0],
        mmd_loss_v := Some 0, ce_loss_v := Some 0\<rparr>"
  have "augment_batch toy_collab toy_args ?st toy_aug_batch = Inl (KeyError ''attetntion_mask'')"
    by (rule augment_batch_KeyError [where ab = toy_aug_batch and s = "[[1, 1]]"
          and t = "[[1, 1]]" and g = "[[0, 0]]"])
      (simp_all add: toy_after_loop_fields toy_collab_fields)
  then show ?thesis
    by (simp add: augmentation_pass_def toy_after_loop_fields bind_err_def)
qed

lemma toy_after_training:
  "after_training toy_collab toy_args 1 toy_after_loop = Inl (KeyError ''attetntion_mask'')"
  by (simp add: after_training_def toy_cls_validation toy_aug_validation toy_augmentation_pass
      bind_err_def)

text \<open>
  Claim C3 (the code departs from it). In the first epoch of a run with one classifier
  batch and one augmenter batch, training and validation succeed and the augmentation
  pass raises \<open>KeyError\<close> for the key \<open>attetntion_mask\<close>: nothing is appended to the
  classifier's corpus and the epoch ends in the exception.
\<close>

theorem online_augmentation_raises_KeyError:
  "run_epoch toy_collab toy_args 1 toy_train_state = Some (Inl (KeyError ''attetntion_mask''))"
  by (simp only: run_epoch_def toy_reset toy_inner_loop toy_after_training option.case sum.case)

subsection \<open>Checkpoints\<close>

lemma checkpoint_block_improved:
  "val < best_val_loss st \<Longrightarrow> checkpoint_block epoch val st =
     Inr (st\<lparr>logged := logged st @ [CheckpointSaving],
             checkpoint_file := Some (snapshot epoch (comps st)),
             best_val_loss := val, best_epoch := Some epoch\<rparr>)"
  by (simp add: checkpoint_block_def)

lemma checkpoint_block_not_improved:
  "\<not> val < best_val_loss st \<Longrightarrow> checkpoint_block epoch val st =
     (case best_epoch st of None \<Rightarrow> Inl (UnboundLocalError ''best_epoch'')
      | Some e \<Rightarrow> Inr (st\<lparr>logged := logged st @ [StillBetter e (best_val_loss st)]\<rparr>))"
  by (simp add: checkpoint_block_def bind_err_def read_var_def split: option.splits)

lemma checkpoint_block_unbound:
  "best_epoch st = None \<Longrightarrow> \<not> val < best_val_loss st \<Longrightarrow>
     checkpoint_block epoch val st = Inl (UnboundLocalError ''best_epoch'')"
  by (simp add: checkpoint_block_not_improved)


end
